theory Spec2Isabelle
  imports Main "HOL-Library.Word"
begin

unbundle bit_operations_syntax

section \<open>Scalars\<close>

text \<open>
  The containers hold an \<^verbatim>\<open>int32_t\<close> or a \<^verbatim>\<open>float_t\<close>. An \<^verbatim>\<open>int32_t\<close> is a 32-bit word:
  \<open>+\<close> and \<open>-\<close> wrap around, \<open>sint\<close> reads the two's complement value. (C++ leaves
  signed overflow undefined; the specification fixes wrap-around, and so does the model.)

  A \<^verbatim>\<open>float_t\<close> is a \<^verbatim>\<open>float\<close>, the bit pattern of an IEEE-754 binary32 number: bit 31
  the sign, bits 30..23 the biased exponent, bits 22..0 the fraction. Arithmetic is
  evaluated in binary32 with the default rounding mode, round to nearest, ties to even.
  Which NaN an operation returns is not observable by the programs modelled here; the
  model returns a NaN operand quieted, and the default NaN for \<open>\<infinity> - \<infinity>\<close>.
\<close>

type_synonym int32_t = "32 word"
type_synonym float_t = "32 word"

definition f_sign :: "float_t \<Rightarrow> bool" where
  "f_sign x = (2 ^ 31 \<le> uint x)"

definition f_exponent :: "float_t \<Rightarrow> nat" where
  "f_exponent x = nat ((uint x div 2 ^ 23) mod 256)"

definition f_fraction :: "float_t \<Rightarrow> int" where
  "f_fraction x = uint x mod 2 ^ 23"

text \<open>A sign and the 31 bits of exponent and fraction, put together.\<close>

definition f_pack :: "bool \<Rightarrow> int \<Rightarrow> float_t" where
  "f_pack s p = word_of_int ((if s then 2 ^ 31 else 0) + p)"

definition f_is_nan :: "float_t \<Rightarrow> bool" where
  "f_is_nan x = (f_exponent x = 255 \<and> f_fraction x \<noteq> 0)"

definition f_is_inf :: "float_t \<Rightarrow> bool" where
  "f_is_inf x = (f_exponent x = 255 \<and> f_fraction x = 0)"

text \<open>
  The magnitude of a finite number, counted in units of \<open>2 ^ -149\<close> (the smallest
  subnormal): every finite binary32 number is an integer multiple of that unit, and
  \<open>1.0f\<close> is \<open>2 ^ 149\<close> units.
\<close>

definition f_magnitude :: "float_t \<Rightarrow> int" where
  "f_magnitude x =
     (if f_exponent x = 0 then f_fraction x
      else (2 ^ 23 + f_fraction x) * 2 ^ (f_exponent x - 1))"

definition f_value :: "float_t \<Rightarrow> int" where
  "f_value x = (if f_sign x then - f_magnitude x else f_magnitude x)"

text \<open>The number of binary digits of a positive integer.\<close>

function nbits :: "int \<Rightarrow> nat" where
  "nbits n = (if n \<le> 0 then 0 else Suc (nbits (n div 2)))"
  by pat_completeness auto
termination
  by (relation "measure nat") auto

declare nbits.simps [simp del]

text \<open>
  Rounding an exact magnitude \<open>a\<close> (in units of \<open>2 ^ -149\<close>) to binary32, to nearest and
  ties to even: keep the 24 leading bits \<open>m\<close>, drop the \<open>sh\<close> bits below them, and round
  up when the dropped part \<open>r\<close> is more than half a unit of \<open>m\<close>, or exactly half with
  \<open>m\<close> odd. The exponent and fraction fields are \<open>sh * 2 ^ 23 + m\<close>: a carry out of the
  fraction moves into the exponent, and a result beyond the largest finite number is
  infinity.
\<close>

definition f_round :: "bool \<Rightarrow> int \<Rightarrow> float_t" where
  "f_round s a =
     (let sh = nbits a - 24;
          m = a div 2 ^ sh;
          r = a mod 2 ^ sh;
          m' = (if 2 ^ sh < 2 * r \<or> (2 * r = 2 ^ sh \<and> odd m) then m + 1 else m);
          p = int sh * 2 ^ 23 + m'
      in f_pack s (if 255 * 2 ^ 23 \<le> p then 255 * 2 ^ 23 else p))"

definition f_quiet :: "float_t \<Rightarrow> float_t" where
  "f_quiet x = x OR 0x00400000"

definition f_default_nan :: float_t where
  "f_default_nan = 0xFFC00000"

definition f_neg :: "float_t \<Rightarrow> float_t" where
  "f_neg x = x XOR 0x80000000"

text \<open>\<^verbatim>\<open>x + y\<close> on \<^verbatim>\<open>float\<close>: the exact sum, rounded.\<close>

definition f_add :: "float_t \<Rightarrow> float_t \<Rightarrow> float_t" where
  "f_add x y =
     (if f_is_nan x then f_quiet x
      else if f_is_nan y then f_quiet y
      else if f_is_inf x then
        (if f_is_inf y \<and> f_sign x \<noteq> f_sign y then f_default_nan else x)
      else if f_is_inf y then y
      else (let n = f_value x + f_value y
            in if n = 0 then f_pack (f_sign x \<and> f_sign y) 0
               else f_round (n < 0) \<bar>n\<bar>))"

text \<open>\<^verbatim>\<open>x - y\<close> on \<^verbatim>\<open>float\<close>.\<close>

definition f_sub :: "float_t \<Rightarrow> float_t \<Rightarrow> float_t" where
  "f_sub x y =
     (if f_is_nan x then f_quiet x
      else if f_is_nan y then f_quiet y
      else f_add x (f_neg y))"

text \<open>\<^verbatim>\<open>x == y\<close> on \<^verbatim>\<open>float\<close>: a NaN equals nothing, and the two zeros are equal.\<close>

definition f_eq :: "float_t \<Rightarrow> float_t \<Rightarrow> bool" where
  "f_eq x y =
     (if f_is_nan x \<or> f_is_nan y then False
      else if f_is_inf x \<or> f_is_inf y then x = y
      else f_value x = f_value y)"

text \<open>The literals \<^verbatim>\<open>0.0f\<close>, \<^verbatim>\<open>1.0f\<close>, \<^verbatim>\<open>2.0f\<close>, \<^verbatim>\<open>-1.0f\<close> and \<^verbatim>\<open>-2.0f\<close>.\<close>

definition f_zero :: float_t where "f_zero = 0x00000000"
definition f_one :: float_t where "f_one = 0x3F800000"
definition f_two :: float_t where "f_two = 0x40000000"
definition f_minus_one :: float_t where "f_minus_one = 0xBF800000"
definition f_minus_two :: float_t where "f_minus_two = 0xC0000000"

text \<open>
  The conversion \<^verbatim>\<open>static_cast<float>(i)\<close> of an \<^verbatim>\<open>int32_t\<close>: the float image of an
  integer, by which the float container is compared with the int container.
\<close>

definition float32_image :: "int32_t \<Rightarrow> float_t" where
  "float32_image i =
     (if sint i = 0 then f_zero else f_round (sint i < 0) (\<bar>sint i\<bar> * 2 ^ 149))"

text \<open>
  A finite float whose value is an integer \<open>n\<close> with \<open>lo \<le> n \<le> hi\<close>.
\<close>

definition f_integer_between :: "int \<Rightarrow> int \<Rightarrow> float_t \<Rightarrow> bool" where
  "f_integer_between lo hi x =
     (f_exponent x \<noteq> 255 \<and> f_value x mod 2 ^ 149 = 0
      \<and> lo * 2 ^ 149 \<le> f_value x \<and> f_value x \<le> hi * 2 ^ 149)"

text \<open>A finite float with the value of the integer \<open>n\<close>.\<close>

definition f_is_integer :: "float_t \<Rightarrow> int \<Rightarrow> bool" where
  "f_is_integer x n = (f_exponent x \<noteq> 255 \<and> f_value x = n * 2 ^ 149)"

text \<open>
  The integers from \<open>- 2 ^ 24\<close> to \<open>2 ^ 24\<close>: up to there every integer is a binary32
  number, beyond there only every second one.
\<close>

definition float_exact :: "int32_t \<Rightarrow> bool" where
  "float_exact i = (- (2 ^ 24) \<le> sint i \<and> sint i \<le> 2 ^ 24)"

section \<open>Failures\<close>

text \<open>
  \<^verbatim>\<open>Operation()\<close> calls through the stored strategy. A null \<^verbatim>\<open>std::unique_ptr\<close> (reference
  semantics) and an empty \<^verbatim>\<open>std::function\<close> (value semantics) are the two ways this can
  go wrong.
\<close>

datatype error = NullPointerDereference | BadFunctionCall

fun succeeded :: "error + 'a \<Rightarrow> bool" where
  "succeeded (Inl e) = False"
| "succeeded (Inr x) = True"

section \<open>Reference semantics\<close>

text \<open>
  \<^verbatim>\<open>OperationStrategy<IntValue>\<close> is an abstract class with the two final subclasses below;
  a \<^verbatim>\<open>std::unique_ptr\<close> to it is \<open>None\<close> when null.
\<close>

datatype RS_IntOperationStrategy =
  RS_IncrementIntValueOperationStrategy | RS_DecrementIntValueOperationStrategy

record RS_IntValue =
  RS_Int_m_OperationStrategy :: "RS_IntOperationStrategy option"
  RS_Int_m_Value :: int32_t

definition RS_IntValue_ctor :: "int32_t \<Rightarrow> RS_IntOperationStrategy option \<Rightarrow> RS_IntValue" where
  "RS_IntValue_ctor val operationStrategy =
     \<lparr>RS_Int_m_OperationStrategy = operationStrategy, RS_Int_m_Value = val\<rparr>"

definition RS_IntValue_SetOperationStrategy ::
    "RS_IntOperationStrategy option \<Rightarrow> RS_IntValue \<Rightarrow> RS_IntValue" where
  "RS_IntValue_SetOperationStrategy operationStrategy this =
     this\<lparr>RS_Int_m_OperationStrategy := operationStrategy\<rparr>"

definition RS_IntValue_GetValue :: "RS_IntValue \<Rightarrow> int32_t" where
  "RS_IntValue_GetValue this = RS_Int_m_Value this"

definition RS_IntValue_SetValue :: "int32_t \<Rightarrow> RS_IntValue \<Rightarrow> RS_IntValue" where
  "RS_IntValue_SetValue val this = this\<lparr>RS_Int_m_Value := val\<rparr>"

fun RS_IntOperationStrategy_Operation ::
    "RS_IntOperationStrategy \<Rightarrow> RS_IntValue \<Rightarrow> RS_IntValue" where
  "RS_IntOperationStrategy_Operation RS_IncrementIntValueOperationStrategy val =
     RS_IntValue_SetValue (RS_IntValue_GetValue val + 1) val"
| "RS_IntOperationStrategy_Operation RS_DecrementIntValueOperationStrategy val =
     RS_IntValue_SetValue (RS_IntValue_GetValue val - 1) val"

definition RS_IntValue_Operation :: "RS_IntValue \<Rightarrow> error + RS_IntValue" where
  "RS_IntValue_Operation this =
     (case RS_Int_m_OperationStrategy this of
        None \<Rightarrow> Inl NullPointerDereference
      | Some s \<Rightarrow> Inr (RS_IntOperationStrategy_Operation s this))"

datatype RS_FloatOperationStrategy =
  RS_IncrementFloatValueOperationStrategy | RS_DecrementFloatValueOperationStrategy

record RS_FloatValue =
  RS_Float_m_OperationStrategy :: "RS_FloatOperationStrategy option"
  RS_Float_m_Value :: float_t

definition RS_FloatValue_ctor ::
    "float_t \<Rightarrow> RS_FloatOperationStrategy option \<Rightarrow> RS_FloatValue" where
  "RS_FloatValue_ctor val operationStrategy =
     \<lparr>RS_Float_m_OperationStrategy = operationStrategy, RS_Float_m_Value = val\<rparr>"

definition RS_FloatValue_SetOperationStrategy ::
    "RS_FloatOperationStrategy option \<Rightarrow> RS_FloatValue \<Rightarrow> RS_FloatValue" where
  "RS_FloatValue_SetOperationStrategy operationStrategy this =
     this\<lparr>RS_Float_m_OperationStrategy := operationStrategy\<rparr>"

definition RS_FloatValue_GetValue :: "RS_FloatValue \<Rightarrow> float_t" where
  "RS_FloatValue_GetValue this = RS_Float_m_Value this"

definition RS_FloatValue_SetValue :: "float_t \<Rightarrow> RS_FloatValue \<Rightarrow> RS_FloatValue" where
  "RS_FloatValue_SetValue val this = this\<lparr>RS_Float_m_Value := val\<rparr>"

fun RS_FloatOperationStrategy_Operation ::
    "RS_FloatOperationStrategy \<Rightarrow> RS_FloatValue \<Rightarrow> RS_FloatValue" where
  "RS_FloatOperationStrategy_Operation RS_IncrementFloatValueOperationStrategy val =
     RS_FloatValue_SetValue (f_add (RS_FloatValue_GetValue val) f_one) val"
| "RS_FloatOperationStrategy_Operation RS_DecrementFloatValueOperationStrategy val =
     RS_FloatValue_SetValue (f_sub (RS_FloatValue_GetValue val) f_one) val"

definition RS_FloatValue_Operation :: "RS_FloatValue \<Rightarrow> error + RS_FloatValue" where
  "RS_FloatValue_Operation this =
     (case RS_Float_m_OperationStrategy this of
        None \<Rightarrow> Inl NullPointerDereference
      | Some s \<Rightarrow> Inr (RS_FloatOperationStrategy_Operation s this))"

text \<open>The base class \<^verbatim>\<open>Value\<close>: an object is one of its two final subclasses.\<close>

datatype RS_Value = RS_Value_Int RS_IntValue | RS_Value_Float RS_FloatValue

fun RS_Value_Operation :: "RS_Value \<Rightarrow> error + RS_Value" where
  "RS_Value_Operation (RS_Value_Int this) = map_sum id RS_Value_Int (RS_IntValue_Operation this)"
| "RS_Value_Operation (RS_Value_Float this) =
     map_sum id RS_Value_Float (RS_FloatValue_Operation this)"

text \<open>
  \<^verbatim>\<open>Random::RandomBool()\<close> is not part of the sources: it is the parameter \<open>RandomBool\<close>,
  a function from the state of the random source to the boolean drawn and the next state.
  A \<^verbatim>\<open>std::unique_ptr<Value>\<close> is returned: \<open>None\<close> would be the null pointer.
\<close>

definition RS_CreateRandomValue :: "('r \<Rightarrow> bool \<times> 'r) \<Rightarrow> 'r \<Rightarrow> RS_Value option \<times> 'r" where
  "RS_CreateRandomValue RandomBool r =
     (case RandomBool r of (b1, r1) \<Rightarrow>
        if b1 then
          (case RandomBool r1 of (b2, r2) \<Rightarrow>
             (let operationStrategy =
                    (if b2 then Some RS_IncrementIntValueOperationStrategy
                     else Some RS_DecrementIntValueOperationStrategy)
              in (Some (RS_Value_Int (RS_IntValue_ctor 0 operationStrategy)), r2)))
        else
          (case RandomBool r1 of (b2, r2) \<Rightarrow>
             (let operationStrategy =
                    (if b2 then Some RS_IncrementFloatValueOperationStrategy
                     else Some RS_DecrementFloatValueOperationStrategy)
              in (Some (RS_Value_Float (RS_FloatValue_ctor f_zero operationStrategy)), r2))))"

section \<open>Value semantics\<close>

text \<open>
  The strategy is a \<^verbatim>\<open>std::function<void(IntValue&)>\<close>: \<open>None\<close> when empty, otherwise one
  of the callables of the sources, the function object
  \<^verbatim>\<open>IncrementIntValueOperationStrategy{}\<close> or the lambda that
  \<^verbatim>\<open>GetDecrementIntValueOperationStrategy()\<close> returns.
\<close>

datatype VS_IntOperationStrategy =
  VS_IncrementIntValueOperationStrategy | VS_DecrementIntValueLambda

record VS_IntValue =
  VS_Int_m_OperationStrategy :: "VS_IntOperationStrategy option"
  VS_Int_m_Value :: int32_t

definition VS_IntValue_ctor :: "int32_t \<Rightarrow> VS_IntOperationStrategy option \<Rightarrow> VS_IntValue" where
  "VS_IntValue_ctor val operationStrategy =
     \<lparr>VS_Int_m_OperationStrategy = operationStrategy, VS_Int_m_Value = val\<rparr>"

definition VS_IntValue_SetOperationStrategy ::
    "VS_IntOperationStrategy option \<Rightarrow> VS_IntValue \<Rightarrow> VS_IntValue" where
  "VS_IntValue_SetOperationStrategy operationStrategy this =
     this\<lparr>VS_Int_m_OperationStrategy := operationStrategy\<rparr>"

definition VS_IntValue_GetValue :: "VS_IntValue \<Rightarrow> int32_t" where
  "VS_IntValue_GetValue this = VS_Int_m_Value this"

definition VS_IntValue_SetValue :: "int32_t \<Rightarrow> VS_IntValue \<Rightarrow> VS_IntValue" where
  "VS_IntValue_SetValue val this = this\<lparr>VS_Int_m_Value := val\<rparr>"

fun VS_IntOperationStrategy_invoke ::
    "VS_IntOperationStrategy \<Rightarrow> VS_IntValue \<Rightarrow> VS_IntValue" where
  "VS_IntOperationStrategy_invoke VS_IncrementIntValueOperationStrategy val =
     VS_IntValue_SetValue (VS_IntValue_GetValue val + 1) val"
| "VS_IntOperationStrategy_invoke VS_DecrementIntValueLambda val =
     VS_IntValue_SetValue (VS_IntValue_GetValue val - 1) val"

definition VS_GetDecrementIntValueOperationStrategy :: "VS_IntOperationStrategy option" where
  "VS_GetDecrementIntValueOperationStrategy = Some VS_DecrementIntValueLambda"

definition VS_IntValue_Operation :: "VS_IntValue \<Rightarrow> error + VS_IntValue" where
  "VS_IntValue_Operation this =
     (case VS_Int_m_OperationStrategy this of
        None \<Rightarrow> Inl BadFunctionCall
      | Some s \<Rightarrow> Inr (VS_IntOperationStrategy_invoke s this))"

datatype VS_FloatOperationStrategy =
  VS_IncrementFloatValueOperationStrategy | VS_DecrementFloatValueLambda

record VS_FloatValue =
  VS_Float_m_OperationStrategy :: "VS_FloatOperationStrategy option"
  VS_Float_m_Value :: float_t

definition VS_FloatValue_ctor ::
    "float_t \<Rightarrow> VS_FloatOperationStrategy option \<Rightarrow> VS_FloatValue" where
  "VS_FloatValue_ctor val operationStrategy =
     \<lparr>VS_Float_m_OperationStrategy = operationStrategy, VS_Float_m_Value = val\<rparr>"

definition VS_FloatValue_SetOperationStrategy ::
    "VS_FloatOperationStrategy option \<Rightarrow> VS_FloatValue \<Rightarrow> VS_FloatValue" where
  "VS_FloatValue_SetOperationStrategy operationStrategy this =
     this\<lparr>VS_Float_m_OperationStrategy := operationStrategy\<rparr>"

definition VS_FloatValue_GetValue :: "VS_FloatValue \<Rightarrow> float_t" where
  "VS_FloatValue_GetValue this = VS_Float_m_Value this"

definition VS_FloatValue_SetValue :: "float_t \<Rightarrow> VS_FloatValue \<Rightarrow> VS_FloatValue" where
  "VS_FloatValue_SetValue val this = this\<lparr>VS_Float_m_Value := val\<rparr>"

fun VS_FloatOperationStrategy_invoke ::
    "VS_FloatOperationStrategy \<Rightarrow> VS_FloatValue \<Rightarrow> VS_FloatValue" where
  "VS_FloatOperationStrategy_invoke VS_IncrementFloatValueOperationStrategy val =
     VS_FloatValue_SetValue (f_add (VS_FloatValue_GetValue val) f_one) val"
| "VS_FloatOperationStrategy_invoke VS_DecrementFloatValueLambda val =
     VS_FloatValue_SetValue (f_sub (VS_FloatValue_GetValue val) f_one) val"

definition VS_GetDecrementFloatValueOperationStrategy ::
    "VS_FloatOperationStrategy option" where
  "VS_GetDecrementFloatValueOperationStrategy = Some VS_DecrementFloatValueLambda"

definition VS_FloatValue_Operation :: "VS_FloatValue \<Rightarrow> error + VS_FloatValue" where
  "VS_FloatValue_Operation this =
     (case VS_Float_m_OperationStrategy this of
        None \<Rightarrow> Inl BadFunctionCall
      | Some s \<Rightarrow> Inr (VS_FloatOperationStrategy_invoke s this))"

datatype VS_Value = VS_Value_Int VS_IntValue | VS_Value_Float VS_FloatValue

fun VS_Value_Operation :: "VS_Value \<Rightarrow> error + VS_Value" where
  "VS_Value_Operation (VS_Value_Int this) = map_sum id VS_Value_Int (VS_IntValue_Operation this)"
| "VS_Value_Operation (VS_Value_Float this) =
     map_sum id VS_Value_Float (VS_FloatValue_Operation this)"

definition VS_CreateRandomValue :: "('r \<Rightarrow> bool \<times> 'r) \<Rightarrow> 'r \<Rightarrow> VS_Value option \<times> 'r" where
  "VS_CreateRandomValue RandomBool r =
     (case RandomBool r of (b1, r1) \<Rightarrow>
        if b1 then
          (case RandomBool r1 of (b2, r2) \<Rightarrow>
             (Some (VS_Value_Int (VS_IntValue_ctor 0
                (if b2 then Some VS_IncrementIntValueOperationStrategy
                 else VS_GetDecrementIntValueOperationStrategy))), r2))
        else
          (case RandomBool r1 of (b2, r2) \<Rightarrow>
             (Some (VS_Value_Float (VS_FloatValue_ctor f_zero
                (if b2 then Some VS_IncrementFloatValueOperationStrategy
                 else VS_GetDecrementFloatValueOperationStrategy))), r2)))"

section \<open>Templates\<close>

text \<open>
  \<^verbatim>\<open>IntValue<TOperationStrategy>\<close> has one instance per strategy class. The template
  argument is part of the object's type and is kept as a field that no member function
  writes; the member \<^verbatim>\<open>m_OperationStrategy\<close> is an object, never absent.
\<close>

datatype T_IntOperationStrategy =
  T_IncrementIntValueOperationStrategy | T_DecrementIntValueOperationStrategy

record T_IntValue =
  T_Int_TOperationStrategy :: T_IntOperationStrategy
  T_Int_m_Value :: int32_t

definition T_IntValue_ctor :: "T_IntOperationStrategy \<Rightarrow> int32_t \<Rightarrow> T_IntValue" where
  "T_IntValue_ctor TOperationStrategy val =
     \<lparr>T_Int_TOperationStrategy = TOperationStrategy, T_Int_m_Value = val\<rparr>"

definition T_IntValue_GetValue :: "T_IntValue \<Rightarrow> int32_t" where
  "T_IntValue_GetValue this = T_Int_m_Value this"

definition T_IntValue_SetValue :: "int32_t \<Rightarrow> T_IntValue \<Rightarrow> T_IntValue" where
  "T_IntValue_SetValue val this = this\<lparr>T_Int_m_Value := val\<rparr>"

fun T_IntOperationStrategy_invoke :: "T_IntOperationStrategy \<Rightarrow> T_IntValue \<Rightarrow> T_IntValue" where
  "T_IntOperationStrategy_invoke T_IncrementIntValueOperationStrategy val =
     T_IntValue_SetValue (T_IntValue_GetValue val + 1) val"
| "T_IntOperationStrategy_invoke T_DecrementIntValueOperationStrategy val =
     T_IntValue_SetValue (T_IntValue_GetValue val - 1) val"

definition T_IntValue_Operation :: "T_IntValue \<Rightarrow> T_IntValue" where
  "T_IntValue_Operation this = T_IntOperationStrategy_invoke (T_Int_TOperationStrategy this) this"

datatype T_FloatOperationStrategy =
  T_IncrementFloatValueOperationStrategy | T_DecrementFloatValueOperationStrategy

record T_FloatValue =
  T_Float_TOperationStrategy :: T_FloatOperationStrategy
  T_Float_m_Value :: float_t

definition T_FloatValue_ctor :: "T_FloatOperationStrategy \<Rightarrow> float_t \<Rightarrow> T_FloatValue" where
  "T_FloatValue_ctor TOperationStrategy val =
     \<lparr>T_Float_TOperationStrategy = TOperationStrategy, T_Float_m_Value = val\<rparr>"

definition T_FloatValue_GetValue :: "T_FloatValue \<Rightarrow> float_t" where
  "T_FloatValue_GetValue this = T_Float_m_Value this"

definition T_FloatValue_SetValue :: "float_t \<Rightarrow> T_FloatValue \<Rightarrow> T_FloatValue" where
  "T_FloatValue_SetValue val this = this\<lparr>T_Float_m_Value := val\<rparr>"

fun T_FloatOperationStrategy_invoke ::
    "T_FloatOperationStrategy \<Rightarrow> T_FloatValue \<Rightarrow> T_FloatValue" where
  "T_FloatOperationStrategy_invoke T_IncrementFloatValueOperationStrategy val =
     T_FloatValue_SetValue (f_add (T_FloatValue_GetValue val) f_one) val"
| "T_FloatOperationStrategy_invoke T_DecrementFloatValueOperationStrategy val =
     T_FloatValue_SetValue (f_sub (T_FloatValue_GetValue val) f_one) val"

definition T_FloatValue_Operation :: "T_FloatValue \<Rightarrow> T_FloatValue" where
  "T_FloatValue_Operation this =
     T_FloatOperationStrategy_invoke (T_Float_TOperationStrategy this) this"

datatype T_Value = T_Value_Int T_IntValue | T_Value_Float T_FloatValue

fun T_Value_Operation :: "T_Value \<Rightarrow> T_Value" where
  "T_Value_Operation (T_Value_Int this) = T_Value_Int (T_IntValue_Operation this)"
| "T_Value_Operation (T_Value_Float this) = T_Value_Float (T_FloatValue_Operation this)"

definition T_CreateRandomValue :: "('r \<Rightarrow> bool \<times> 'r) \<Rightarrow> 'r \<Rightarrow> T_Value option \<times> 'r" where
  "T_CreateRandomValue RandomBool r =
     (case RandomBool r of (b1, r1) \<Rightarrow>
        if b1 then
          (case RandomBool r1 of (b2, r2) \<Rightarrow>
             if b2 then
               (Some (T_Value_Int (T_IntValue_ctor T_IncrementIntValueOperationStrategy 0)), r2)
             else
               (Some (T_Value_Int (T_IntValue_ctor T_DecrementIntValueOperationStrategy 0)), r2))
        else
          (case RandomBool r1 of (b2, r2) \<Rightarrow>
             if b2 then
               (Some (T_Value_Float
                  (T_FloatValue_ctor T_IncrementFloatValueOperationStrategy f_zero)), r2)
             else
               (Some (T_Value_Float
                  (T_FloatValue_ctor T_DecrementFloatValueOperationStrategy f_zero)), r2)))"

section \<open>Callers\<close>

text \<open>
  A caller of a container with a replaceable strategy makes a finite sequence of calls,
  each \<^verbatim>\<open>Operation()\<close> or \<^verbatim>\<open>SetOperationStrategy(s)\<close>, and may read \<^verbatim>\<open>GetValue()\<close> after
  each, as the unit tests do. A failed call ends the sequence.
\<close>

datatype 's Call = Operation | SetOperationStrategy 's

fun call :: "('c \<Rightarrow> error + 'c) \<Rightarrow> ('s \<Rightarrow> 'c \<Rightarrow> 'c) \<Rightarrow> 's Call \<Rightarrow> 'c \<Rightarrow> error + 'c" where
  "call operation setOperationStrategy Operation this = operation this"
| "call operation setOperationStrategy (SetOperationStrategy s) this =
     Inr (setOperationStrategy s this)"

text \<open>The container after all the calls.\<close>

fun run ::
    "('c \<Rightarrow> error + 'c) \<Rightarrow> ('s \<Rightarrow> 'c \<Rightarrow> 'c) \<Rightarrow> 'c \<Rightarrow> 's Call list \<Rightarrow> error + 'c" where
  "run operation setOperationStrategy this [] = Inr this"
| "run operation setOperationStrategy this (c # cs) =
     (case call operation setOperationStrategy c this of
        Inl e \<Rightarrow> Inl e
      | Inr this' \<Rightarrow> run operation setOperationStrategy this' cs)"

text \<open>What \<^verbatim>\<open>GetValue()\<close> returns after each call.\<close>

fun observe ::
    "('c \<Rightarrow> error + 'c) \<Rightarrow> ('s \<Rightarrow> 'c \<Rightarrow> 'c) \<Rightarrow> ('c \<Rightarrow> 'v) \<Rightarrow> 'c \<Rightarrow> 's Call list
      \<Rightarrow> (error + 'v) list" where
  "observe operation setOperationStrategy getValue this [] = []"
| "observe operation setOperationStrategy getValue this (c # cs) =
     (case call operation setOperationStrategy c this of
        Inl e \<Rightarrow> [Inl e]
      | Inr this' \<Rightarrow>
          Inr (getValue this') # observe operation setOperationStrategy getValue this' cs)"

definition RS_IntValue_run ::
    "RS_IntValue \<Rightarrow> RS_IntOperationStrategy option Call list \<Rightarrow> error + RS_IntValue" where
  "RS_IntValue_run = run RS_IntValue_Operation RS_IntValue_SetOperationStrategy"

definition RS_FloatValue_run ::
    "RS_FloatValue \<Rightarrow> RS_FloatOperationStrategy option Call list \<Rightarrow> error + RS_FloatValue" where
  "RS_FloatValue_run = run RS_FloatValue_Operation RS_FloatValue_SetOperationStrategy"

definition VS_IntValue_run ::
    "VS_IntValue \<Rightarrow> VS_IntOperationStrategy option Call list \<Rightarrow> error + VS_IntValue" where
  "VS_IntValue_run = run VS_IntValue_Operation VS_IntValue_SetOperationStrategy"

definition VS_FloatValue_run ::
    "VS_FloatValue \<Rightarrow> VS_FloatOperationStrategy option Call list \<Rightarrow> error + VS_FloatValue" where
  "VS_FloatValue_run = run VS_FloatValue_Operation VS_FloatValue_SetOperationStrategy"

definition RS_IntValue_observe ::
    "RS_IntValue \<Rightarrow> RS_IntOperationStrategy option Call list \<Rightarrow> (error + int32_t) list" where
  "RS_IntValue_observe =
     observe RS_IntValue_Operation RS_IntValue_SetOperationStrategy RS_IntValue_GetValue"

definition RS_FloatValue_observe ::
    "RS_FloatValue \<Rightarrow> RS_FloatOperationStrategy option Call list \<Rightarrow> (error + float_t) list" where
  "RS_FloatValue_observe =
     observe RS_FloatValue_Operation RS_FloatValue_SetOperationStrategy RS_FloatValue_GetValue"

definition VS_IntValue_observe ::
    "VS_IntValue \<Rightarrow> VS_IntOperationStrategy option Call list \<Rightarrow> (error + int32_t) list" where
  "VS_IntValue_observe =
     observe VS_IntValue_Operation VS_IntValue_SetOperationStrategy VS_IntValue_GetValue"

definition VS_FloatValue_observe ::
    "VS_FloatValue \<Rightarrow> VS_FloatOperationStrategy option Call list \<Rightarrow> (error + float_t) list" where
  "VS_FloatValue_observe =
     observe VS_FloatValue_Operation VS_FloatValue_SetOperationStrategy VS_FloatValue_GetValue"

text \<open>
  The two behaviours, and the strategy object a caller passes for each:
  \<^verbatim>\<open>std::make_unique<...Strategy>()\<close> under reference semantics, the function object or
  the lambda under value semantics.
\<close>

datatype Behaviour = Increment | Decrement

fun RS_Int_strategy :: "Behaviour \<Rightarrow> RS_IntOperationStrategy option" where
  "RS_Int_strategy Increment = Some RS_IncrementIntValueOperationStrategy"
| "RS_Int_strategy Decrement = Some RS_DecrementIntValueOperationStrategy"

fun RS_Float_strategy :: "Behaviour \<Rightarrow> RS_FloatOperationStrategy option" where
  "RS_Float_strategy Increment = Some RS_IncrementFloatValueOperationStrategy"
| "RS_Float_strategy Decrement = Some RS_DecrementFloatValueOperationStrategy"

fun VS_Int_strategy :: "Behaviour \<Rightarrow> VS_IntOperationStrategy option" where
  "VS_Int_strategy Increment = Some VS_IncrementIntValueOperationStrategy"
| "VS_Int_strategy Decrement = VS_GetDecrementIntValueOperationStrategy"

fun VS_Float_strategy :: "Behaviour \<Rightarrow> VS_FloatOperationStrategy option" where
  "VS_Float_strategy Increment = Some VS_IncrementFloatValueOperationStrategy"
| "VS_Float_strategy Decrement = VS_GetDecrementFloatValueOperationStrategy"

section \<open>Binary32 arithmetic\<close>

subsection \<open>Rounding is exact on the numbers with 24 significant bits\<close>

text \<open>A positive integer below \<open>2 ^ Suc k\<close> and not below \<open>2 ^ k\<close> has \<open>Suc k\<close> digits.\<close>

lemma nbits_eq: "2 ^ k \<le> a \<Longrightarrow> a < 2 ^ Suc k \<Longrightarrow> nbits a = Suc k"
proof (induction k arbitrary: a)
  case 0
  then have "a = 1" by simp
  then show ?case by (simp add: nbits.simps)
next
  case (Suc k)
  have pos: "0 < a" using Suc.prems(1) by (smt (verit) zero_less_power)
  have lo: "2 ^ k \<le> a div 2" using Suc.prems(1) by simp
  have hi: "a div 2 < 2 ^ Suc k" using Suc.prems(2) by simp
  have "nbits a = Suc (nbits (a div 2))"
    using pos by (subst nbits.simps) simp
  then show ?case using Suc.IH [OF lo hi] by simp
qed

lemma uint_word32: "0 \<le> k \<Longrightarrow> k < 2 ^ 32 \<Longrightarrow> uint (word_of_int k :: 32 word) = k"
  by (simp add: uint_word_of_int)

lemma uint_f_pack:
  "0 \<le> p \<Longrightarrow> p < 2 ^ 31 \<Longrightarrow> uint (f_pack s p) = (if s then 2 ^ 31 else 0) + p"
  unfolding f_pack_def
  by (rule uint_word32) (simp_all split: if_splits)

lemma f_sign_pack: "0 \<le> p \<Longrightarrow> p < 2 ^ 31 \<Longrightarrow> f_sign (f_pack s p) = s"
  by (simp add: f_sign_def uint_f_pack)

lemma mod_2_31: "(2 ^ 31 + p) mod 2 ^ 23 = p mod (2 ^ 23 :: int)"
  using mod_mult_self3 [of 256 "2 ^ 23 :: int" p] by simp

lemma div_2_31: "(2 ^ 31 + p) div 2 ^ 23 = 256 + p div (2 ^ 23 :: int)"
  using div_mult_self3 [of "2 ^ 23 :: int" 256 p] by simp

lemma f_fraction_pack:
  assumes "0 \<le> p" "p < 2 ^ 31"
  shows "f_fraction (f_pack s p) = p mod 2 ^ 23"
  using assms mod_2_31 [of p] by (simp add: f_fraction_def uint_f_pack)

lemma f_exponent_pack:
  assumes p: "0 \<le> p" "p < 2 ^ 31"
  shows "f_exponent (f_pack s p) = nat (p div 2 ^ 23)"
proof -
  have b: "p div 2 ^ 23 < 256" "0 \<le> p div 2 ^ 23" using p by simp_all
  show ?thesis using div_2_31 [of p] b p
    by (simp add: f_exponent_def uint_f_pack)
qed

lemma f_round_exact:
  assumes m: "2 ^ 23 \<le> m" "m < 2 ^ 24" and sh: "sh \<le> 253"
  shows "f_round s (m * 2 ^ sh) = f_pack s (int sh * 2 ^ 23 + m)"
proof -
  have lo: "2 ^ (23 + sh) \<le> m * 2 ^ sh"
    using m(1) by (simp add: power_add)
  have hi: "m * 2 ^ sh < 2 ^ Suc (23 + sh)"
    using m(2) by (simp add: power_add)
  have nb: "nbits (m * 2 ^ sh) = Suc (23 + sh)"
    by (rule nbits_eq [OF lo hi])
  have p: "int sh * 2 ^ 23 + m < 255 * 2 ^ 23"
    using m(2) sh by simp
  show ?thesis
    using p by (simp add: f_round_def nb Let_def)
qed

lemma f_normal_fields:
  assumes m: "2 ^ 23 \<le> m" "m < 2 ^ 24" and sh: "sh \<le> 253"
  shows "f_sign (f_pack s (int sh * 2 ^ 23 + m)) = s"
    and "f_exponent (f_pack s (int sh * 2 ^ 23 + m)) = Suc sh"
    and "f_fraction (f_pack s (int sh * 2 ^ 23 + m)) = m - 2 ^ 23"
proof -
  let ?p = "int sh * 2 ^ 23 + m"
  have p0: "0 \<le> ?p" using m(1) by simp
  have p1: "?p < 2 ^ 31" using m(2) sh by simp
  have md1: "m div 2 ^ 23 = 1"
    using m by simp
  have md2: "m mod 2 ^ 23 = m - 2 ^ 23"
    using md1 minus_mult_div_eq_mod [of m "2 ^ 23"] by simp
  note md = md1 md2
  have d: "?p div 2 ^ 23 = int sh + 1"
    using div_mult_self3 [of "2 ^ 23 :: int" "int sh" m] md by simp
  have r: "?p mod 2 ^ 23 = m - 2 ^ 23"
    using mod_mult_self3 [of "int sh" "2 ^ 23 :: int" m] md by simp
  show "f_sign (f_pack s ?p) = s" by (rule f_sign_pack [OF p0 p1])
  show "f_exponent (f_pack s ?p) = Suc sh"
    using f_exponent_pack [OF p0 p1, of s] d by simp
  show "f_fraction (f_pack s ?p) = m - 2 ^ 23"
    using f_fraction_pack [OF p0 p1, of s] r by simp
qed

lemma f_round_exact_value:
  assumes m: "2 ^ 23 \<le> m" "m < 2 ^ 24" and sh: "sh \<le> 253"
  shows "f_exponent (f_round s (m * 2 ^ sh)) \<noteq> 255"
    and "f_value (f_round s (m * 2 ^ sh)) = (if s then - (m * 2 ^ sh) else m * 2 ^ sh)"
proof -
  define x where "x = f_pack s (int sh * 2 ^ 23 + m)"
  have r: "f_round s (m * 2 ^ sh) = x"
    unfolding x_def by (rule f_round_exact [OF assms])
  have f: "f_sign x = s" "f_exponent x = Suc sh" "f_fraction x = m - 2 ^ 23"
    unfolding x_def by (rule f_normal_fields [OF assms])+
  show "f_exponent (f_round s (m * 2 ^ sh)) \<noteq> 255"
    unfolding r using f sh by simp
  show "f_value (f_round s (m * 2 ^ sh)) = (if s then - (m * 2 ^ sh) else m * 2 ^ sh)"
    unfolding r using f by (simp add: f_value_def f_magnitude_def)
qed

lemma ex_binade: "1 \<le> (n::int) \<Longrightarrow> n < 2 ^ N \<Longrightarrow> \<exists>j<N. 2 ^ j \<le> n \<and> n < 2 ^ Suc j"
proof (induction N)
  case 0
  then show ?case by simp
next
  case (Suc N)
  show ?case
  proof (cases "n < 2 ^ N")
    case True
    with Suc obtain j where "j < N" "2 ^ j \<le> n \<and> n < 2 ^ Suc j" by blast
    then show ?thesis using less_Suc_eq by blast
  next
    case False
    then show ?thesis using Suc.prems by auto
  qed
qed

lemma ex_normal:
  assumes n: "1 \<le> (n::int)" "n \<le> 2 ^ 24"
  shows "\<exists>m sh. n * 2 ^ 149 = m * 2 ^ sh \<and> 2 ^ 23 \<le> m \<and> m < 2 ^ 24 \<and> sh \<le> (253::nat)"
proof (cases "n = 2 ^ 24")
  case True
  show ?thesis
    unfolding True
    by (rule exI [of _ "2 ^ 23 :: int"], rule exI [of _ "150 :: nat"]) simp
next
  case False
  with n have "n < 2 ^ 24" by simp
  from ex_binade [OF n(1) this] obtain j where j: "j < 24" "2 ^ j \<le> n" "n < 2 ^ Suc j"
    by blast
  let ?m = "n * 2 ^ (23 - j)"
  let ?sh = "126 + j"
  have e: "(2::int) ^ (23 - j) * 2 ^ (126 + j) = 2 ^ 149"
    using j(1) by (simp add: power_add [symmetric] del: power_numeral)
  have "n * 2 ^ 149 = ?m * 2 ^ ?sh"
    using e by (simp add: mult.assoc)
  moreover have "2 ^ 23 \<le> ?m"
  proof -
    have "(2::int) ^ 23 = 2 ^ j * 2 ^ (23 - j)"
      using j(1) by (simp add: power_add [symmetric])
    also have "\<dots> \<le> n * 2 ^ (23 - j)" using j(2) by (simp add: mult_right_mono)
    finally show ?thesis .
  qed
  moreover have "?m < 2 ^ 24"
  proof -
    have "n * 2 ^ (23 - j) < 2 ^ Suc j * 2 ^ (23 - j)"
      using j(3) by (simp add: mult_strict_right_mono) 
    also have "\<dots> = (2::int) ^ 24"
      using j(1) by (simp add: power_add [symmetric] del: power_Suc)
    finally show ?thesis .
  qed
  moreover have "?sh \<le> 253" using j(1) by simp
  ultimately show ?thesis by blast
qed

lemma f_round_integer:
  assumes n: "1 \<le> n" "n \<le> 2 ^ 24"
  shows "f_exponent (f_round s (n * 2 ^ 149)) \<noteq> 255"
    and "f_value (f_round s (n * 2 ^ 149)) = (if s then - (n * 2 ^ 149) else n * 2 ^ 149)"
proof -
  from ex_normal [OF n] obtain m sh where
    e: "n * 2 ^ 149 = m * 2 ^ sh" and m: "2 ^ 23 \<le> m" "m < 2 ^ 24" and sh: "sh \<le> (253::nat)"
    by blast
  show "f_exponent (f_round s (n * 2 ^ 149)) \<noteq> 255"
    unfolding e by (rule f_round_exact_value [OF m sh])
  show "f_value (f_round s (n * 2 ^ 149)) = (if s then - (n * 2 ^ 149) else n * 2 ^ 149)"
    unfolding e by (rule f_round_exact_value [OF m sh])
qed

subsection \<open>Adding and subtracting one\<close>

lemma f_one_fields: "f_exponent f_one = 127" "f_fraction f_one = 0" "f_sign f_one = False"
  by (simp_all add: f_one_def f_exponent_def f_fraction_def f_sign_def)

lemma f_minus_one_fields:
  "f_exponent f_minus_one = 127" "f_fraction f_minus_one = 0" "f_sign f_minus_one = True"
  by (simp_all add: f_minus_one_def f_exponent_def f_fraction_def f_sign_def)

lemma f_value_one: "f_value f_one = 2 ^ 149"
  by (simp add: f_value_def f_magnitude_def f_one_fields)

lemma f_value_minus_one: "f_value f_minus_one = - (2 ^ 149)"
  by (simp add: f_value_def f_magnitude_def f_minus_one_fields)

lemma f_neg_one: "f_neg f_one = f_minus_one"
  by (simp add: f_neg_def f_one_def f_minus_one_def)

lemma f_zero_fields: "f_exponent f_zero = 0" "f_fraction f_zero = 0" "f_sign f_zero = False"
  by (simp_all add: f_zero_def f_exponent_def f_fraction_def f_sign_def)

lemma f_value_zero: "f_value f_zero = 0"
  by (simp add: f_value_def f_magnitude_def f_zero_fields)

lemma f_pack_zero_fields: "f_exponent (f_pack s 0) = 0" "f_fraction (f_pack s 0) = 0"
  using f_exponent_pack [of 0 s] f_fraction_pack [of 0 s] by simp_all

lemma f_value_pack_zero: "f_value (f_pack s 0) = 0"
  by (simp add: f_value_def f_magnitude_def f_pack_zero_fields)

lemma f_add_integer:
  assumes x: "f_exponent x \<noteq> 255" and y: "f_exponent y \<noteq> 255"
    and s: "f_value x + f_value y = n * 2 ^ 149"
    and n: "- (2 ^ 24) \<le> n" "n \<le> 2 ^ 24"
  shows "f_exponent (f_add x y) \<noteq> 255" and "f_value (f_add x y) = n * 2 ^ 149"
proof -
  have e: "f_add x y =
      (if n = 0 then f_pack (f_sign x \<and> f_sign y) 0 else f_round (n < 0) (\<bar>n\<bar> * 2 ^ 149))"
    using x y s by (simp add: f_add_def f_is_nan_def f_is_inf_def Let_def abs_mult)
  have "f_exponent (f_add x y) \<noteq> 255 \<and> f_value (f_add x y) = n * 2 ^ 149"
  proof (cases "n = 0")
    case True
    then show ?thesis by (simp add: e f_pack_zero_fields f_value_pack_zero)
  next
    case False
    then have a: "1 \<le> \<bar>n\<bar>" "\<bar>n\<bar> \<le> 2 ^ 24" using n by simp_all
    show ?thesis
      using False f_round_integer [OF a, of "n < 0"] by (simp add: e)
  qed
  then show "f_exponent (f_add x y) \<noteq> 255" and "f_value (f_add x y) = n * 2 ^ 149"
    by simp_all
qed

lemma f_increment_integer:
  assumes "f_exponent x \<noteq> 255" and "f_value x = n * 2 ^ 149"
    and "- (2 ^ 24) \<le> n + 1" "n + 1 \<le> 2 ^ 24"
  shows "f_exponent (f_add x f_one) \<noteq> 255" and "f_value (f_add x f_one) = (n + 1) * 2 ^ 149"
proof -
  have s: "f_value x + f_value f_one = (n + 1) * 2 ^ 149"
    using assms(2) by (simp add: f_value_one algebra_simps)
  have o: "f_exponent f_one \<noteq> 255" by (simp add: f_one_fields)
  show "f_exponent (f_add x f_one) \<noteq> 255"
    by (rule f_add_integer(1) [OF assms(1) o s assms(3) assms(4)])
  show "f_value (f_add x f_one) = (n + 1) * 2 ^ 149"
    by (rule f_add_integer(2) [OF assms(1) o s assms(3) assms(4)])
qed

lemma f_decrement_integer:
  assumes "f_exponent x \<noteq> 255" and "f_value x = n * 2 ^ 149"
    and "- (2 ^ 24) \<le> n - 1" "n - 1 \<le> 2 ^ 24"
  shows "f_exponent (f_sub x f_one) \<noteq> 255" and "f_value (f_sub x f_one) = (n - 1) * 2 ^ 149"
proof -
  have e: "f_sub x f_one = f_add x f_minus_one"
    using assms(1) by (simp add: f_sub_def f_is_nan_def f_one_fields f_neg_one)
  have s: "f_value x + f_value f_minus_one = (n - 1) * 2 ^ 149"
    using assms(2) by (simp add: f_value_minus_one algebra_simps)
  have o: "f_exponent f_minus_one \<noteq> 255" by (simp add: f_minus_one_fields)
  show "f_exponent (f_sub x f_one) \<noteq> 255"
    unfolding e by (rule f_add_integer(1) [OF assms(1) o s assms(3) assms(4)])
  show "f_value (f_sub x f_one) = (n - 1) * 2 ^ 149"
    unfolding e by (rule f_add_integer(2) [OF assms(1) o s assms(3) assms(4)])
qed

lemma f_eq_finite:
  "f_exponent x \<noteq> 255 \<Longrightarrow> f_exponent y \<noteq> 255 \<Longrightarrow> f_value x = f_value y \<Longrightarrow> f_eq x y"
  by (simp add: f_eq_def f_is_nan_def f_is_inf_def)

lemma f_integer_betweenD:
  assumes "f_integer_between lo hi x"
  obtains n where "f_exponent x \<noteq> 255" "f_value x = n * 2 ^ 149" "lo \<le> n" "n \<le> hi"
proof -
  let ?n = "f_value x div 2 ^ 149"
  have fin: "f_exponent x \<noteq> 255" and md: "f_value x mod 2 ^ 149 = 0"
    and lo: "lo * 2 ^ 149 \<le> f_value x" and hi: "f_value x \<le> hi * 2 ^ 149"
    using assms by (simp_all add: f_integer_between_def)
  have v: "f_value x = ?n * 2 ^ 149"
    using md by (metis mod_eq_0_iff_dvd dvd_div_mult_self)
  have "lo * 2 ^ 149 \<le> ?n * 2 ^ 149" using lo v by simp
  then have l: "lo \<le> ?n" by simp
  have "?n * 2 ^ 149 \<le> hi * 2 ^ 149" using hi v by simp
  then have h: "?n \<le> hi" by simp
  show ?thesis using that [OF fin v l h] .
qed

lemma f_round_trip:
  assumes "f_integer_between (- (2 ^ 24)) (2 ^ 24 - 1) v"
  shows "f_eq (f_sub (f_add v f_one) f_one) v"
proof -
  from assms obtain n where fin: "f_exponent v \<noteq> 255" and v: "f_value v = n * 2 ^ 149"
    and n: "- (2 ^ 24) \<le> n" "n \<le> 2 ^ 24 - 1"
    by (rule f_integer_betweenD)
  have a: "- (2 ^ 24) \<le> n + 1" "n + 1 \<le> 2 ^ 24" using n by simp_all
  note i = f_increment_integer [OF fin v a]
  have b: "- (2 ^ 24) \<le> n + 1 - 1" "n + 1 - 1 \<le> 2 ^ 24" using n by simp_all
  note d = f_decrement_integer [OF i b]
  show ?thesis
    using d v fin by (intro f_eq_finite) simp_all
qed

subsection \<open>Integers and their float images\<close>

lemma sint_succ:
  fixes i :: int32_t
  assumes "sint i \<le> 2 ^ 24" "- (2 ^ 24) \<le> sint i"
  shows "sint (i + 1) = sint i + 1"
proof -
  have "sint (i + 1) = signed_take_bit 31 (sint i + 1)"
    by (simp add: sint_word_ariths)
  also have "\<dots> = sint i + 1"
    using assms by (intro signed_take_bit_int_eq_self) simp_all
  finally show ?thesis .
qed

lemma sint_pred:
  fixes i :: int32_t
  assumes "sint i \<le> 2 ^ 24" "- (2 ^ 24) \<le> sint i"
  shows "sint (i - 1) = sint i - 1"
proof -
  have "sint (i - 1) = signed_take_bit 31 (sint i - 1)"
    by (simp add: sint_word_ariths)
  also have "\<dots> = sint i - 1"
    using assms by (intro signed_take_bit_int_eq_self) simp_all
  finally show ?thesis .
qed

lemma float32_image_exact:
  assumes "float_exact i"
  shows "f_is_integer (float32_image i) (sint i)"
proof (cases "sint i = 0")
  case True
  then show ?thesis
    by (simp add: float32_image_def f_is_integer_def f_zero_fields f_value_zero)
next
  case False
  then have a: "1 \<le> \<bar>sint i\<bar>" "\<bar>sint i\<bar> \<le> 2 ^ 24"
    using assms unfolding float_exact_def by linarith+
  show ?thesis
    using False f_round_integer [OF a, of "sint i < 0"]
    by (simp add: float32_image_def f_is_integer_def)
qed

lemma f_increment_exact:
  assumes "f_is_integer x (sint i)" "float_exact i" "float_exact (i + 1)"
  shows "f_is_integer (f_add x f_one) (sint (i + 1))"
proof -
  have s: "sint (i + 1) = sint i + 1"
    using assms(2) by (intro sint_succ) (simp_all add: float_exact_def)
  have b: "- (2 ^ 24) \<le> sint i + 1" "sint i + 1 \<le> 2 ^ 24"
    using assms(3) s by (simp_all add: float_exact_def)
  from assms(1) have x: "f_exponent x \<noteq> 255" "f_value x = sint i * 2 ^ 149"
    by (simp_all add: f_is_integer_def)
  show ?thesis
    unfolding f_is_integer_def s using f_increment_integer [OF x b] by simp
qed

lemma f_decrement_exact:
  assumes "f_is_integer x (sint i)" "float_exact i" "float_exact (i - 1)"
  shows "f_is_integer (f_sub x f_one) (sint (i - 1))"
proof -
  have s: "sint (i - 1) = sint i - 1"
    using assms(2) by (intro sint_pred) (simp_all add: float_exact_def)
  have b: "- (2 ^ 24) \<le> sint i - 1" "sint i - 1 \<le> 2 ^ 24"
    using assms(3) s by (simp_all add: float_exact_def)
  from assms(1) have x: "f_exponent x \<noteq> 255" "f_value x = sint i * 2 ^ 149"
    by (simp_all add: f_is_integer_def)
  show ?thesis
    unfolding f_is_integer_def s using f_decrement_integer [OF x b] by simp
qed

lemma f_eq_image:
  assumes "f_is_integer x (sint i)" "float_exact i"
  shows "f_eq x (float32_image i)"
  using assms(1) float32_image_exact [OF assms(2)]
  by (intro f_eq_finite) (simp_all add: f_is_integer_def)

subsection \<open>Evaluated arithmetic\<close>

text \<open>
  The literals are the numbers they stand for, in units of \<open>2 ^ -149\<close>.
\<close>

lemma f_value_two: "f_value f_two = 2 * 2 ^ 149"
  by code_simp

lemma f_value_minus_two: "f_value f_minus_two = - (2 * 2 ^ 149)"
  by code_simp

text \<open>
  The rounding at work: 0.5f + 1.0f is exact; 1.0f plus half a unit in the last place is
  a tie and goes to the even neighbour, down from 1.0f and up from the next float; the
  sum of two subnormals is exact; the largest finite number added to itself overflows to
  infinity; opposite infinities give the default NaN; \<open>-0 + 0\<close> is \<open>+0\<close>.
\<close>

lemma f_add_half_one: "f_add 0x3F000000 f_one = 0x3FC00000"
  by code_simp

lemma f_add_tie_down: "f_add 0x3F800000 0x33800000 = 0x3F800000"
  by code_simp

lemma f_add_tie_up: "f_add 0x3F800001 0x33800000 = 0x3F800002"
  by code_simp

lemma f_add_subnormal: "f_add 0x00000001 0x00000001 = 0x00000002"
  by code_simp

lemma f_add_overflow: "f_add 0x7F7FFFFF 0x7F7FFFFF = 0x7F800000"
  by code_simp

lemma f_add_infinities: "f_add 0x7F800000 0xFF800000 = f_default_nan"
  by code_simp

lemma f_add_zeros: "f_add 0x80000000 f_zero = f_zero"
  by code_simp

text \<open>The sums and differences of the unit tests, and those around \<open>2 ^ 24\<close>.\<close>

lemma f_add_zero_one: "f_add f_zero f_one = f_one"
  by code_simp

lemma f_add_one_one: "f_add f_one f_one = f_two"
  by code_simp

lemma f_sub_two_one: "f_sub f_two f_one = f_one"
  by code_simp

lemma f_sub_one_one: "f_sub f_one f_one = f_zero"
  by code_simp

lemma f_sub_zero_one: "f_sub f_zero f_one = f_minus_one"
  by code_simp

lemma f_sub_minus_one_one: "f_sub f_minus_one f_one = f_minus_two"
  by code_simp

lemma f_value_2_24: "f_value 0x4B800000 = 16777216 * 2 ^ 149"
  by code_simp

lemma f_value_2_24_m1: "f_value 0x4B7FFFFF = 16777215 * 2 ^ 149"
  by code_simp

lemma f_value_2_24_p2: "f_value 0x4B800001 = 16777218 * 2 ^ 149"
  by code_simp

lemma f_add_2_24_one: "f_add 0x4B800000 f_one = 0x4B800000"
  by code_simp

lemma f_sub_2_24_one: "f_sub 0x4B800000 f_one = 0x4B7FFFFF"
  by code_simp

lemma not_f_eq_2_24: "\<not> f_eq 0x4B7FFFFF 0x4B800000"
  by code_simp

lemma float32_image_2_24: "float32_image 16777216 = 0x4B800000"
  by code_simp

lemma float32_image_2_24_p2: "float32_image 16777218 = 0x4B800001"
  by code_simp

lemma not_f_eq_image: "\<not> f_eq 0x4B800000 0x4B800001"
  by code_simp

lemma f_integer_between_one: "f_integer_between (- (2 ^ 24)) (2 ^ 24 - 1) f_one"
  by (simp add: f_integer_between_def f_one_fields f_value_one)

section \<open>Containers and callers\<close>

lemmas container_defs =
  RS_IntValue_ctor_def RS_IntValue_SetOperationStrategy_def RS_IntValue_GetValue_def
  RS_IntValue_SetValue_def RS_IntValue_Operation_def
  RS_FloatValue_ctor_def RS_FloatValue_SetOperationStrategy_def RS_FloatValue_GetValue_def
  RS_FloatValue_SetValue_def RS_FloatValue_Operation_def
  VS_IntValue_ctor_def VS_IntValue_SetOperationStrategy_def VS_IntValue_GetValue_def
  VS_IntValue_SetValue_def VS_IntValue_Operation_def
  VS_FloatValue_ctor_def VS_FloatValue_SetOperationStrategy_def VS_FloatValue_GetValue_def
  VS_FloatValue_SetValue_def VS_FloatValue_Operation_def
  VS_GetDecrementIntValueOperationStrategy_def VS_GetDecrementFloatValueOperationStrategy_def
  T_IntValue_ctor_def T_IntValue_GetValue_def T_IntValue_SetValue_def T_IntValue_Operation_def
  T_FloatValue_ctor_def T_FloatValue_GetValue_def T_FloatValue_SetValue_def
  T_FloatValue_Operation_def

lemmas caller_defs =
  RS_IntValue_run_def RS_FloatValue_run_def VS_IntValue_run_def VS_FloatValue_run_def
  RS_IntValue_observe_def RS_FloatValue_observe_def VS_IntValue_observe_def
  VS_FloatValue_observe_def

subsection \<open>What \<^verbatim>\<open>Operation()\<close> leaves alone\<close>

lemma RS_Int_Operation_strategy:
  "RS_IntValue_Operation this = Inr this' \<Longrightarrow>
     RS_Int_m_OperationStrategy this' = RS_Int_m_OperationStrategy this"
  by (cases "RS_Int_m_OperationStrategy this"; cases "the (RS_Int_m_OperationStrategy this)")
     (auto simp: container_defs)

lemma RS_Float_Operation_strategy:
  "RS_FloatValue_Operation this = Inr this' \<Longrightarrow>
     RS_Float_m_OperationStrategy this' = RS_Float_m_OperationStrategy this"
  by (cases "RS_Float_m_OperationStrategy this"; cases "the (RS_Float_m_OperationStrategy this)")
     (auto simp: container_defs)

lemma VS_Int_Operation_strategy:
  "VS_IntValue_Operation this = Inr this' \<Longrightarrow>
     VS_Int_m_OperationStrategy this' = VS_Int_m_OperationStrategy this"
  by (cases "VS_Int_m_OperationStrategy this"; cases "the (VS_Int_m_OperationStrategy this)")
     (auto simp: container_defs)

lemma VS_Float_Operation_strategy:
  "VS_FloatValue_Operation this = Inr this' \<Longrightarrow>
     VS_Float_m_OperationStrategy this' = VS_Float_m_OperationStrategy this"
  by (cases "VS_Float_m_OperationStrategy this"; cases "the (VS_Float_m_OperationStrategy this)")
     (auto simp: container_defs)

lemma T_Int_Operation_strategy:
  "T_Int_TOperationStrategy (T_IntValue_Operation this) = T_Int_TOperationStrategy this"
  by (cases "T_Int_TOperationStrategy this") (simp_all add: container_defs)

lemma T_Float_Operation_strategy:
  "T_Float_TOperationStrategy (T_FloatValue_Operation this) = T_Float_TOperationStrategy this"
  by (cases "T_Float_TOperationStrategy this") (simp_all add: container_defs)

text \<open>What a successful call of the operation keeps, a run of such calls keeps.\<close>

lemma run_replicate_keeps:
  assumes keep: "\<And>this this'. operation this = Inr this' \<Longrightarrow> p this' = p this"
  shows "run operation setOperationStrategy this (replicate n Operation) = Inr this'
     \<Longrightarrow> p this' = p this"
proof (induction n arbitrary: this)
  case 0
  then show ?case by simp
next
  case (Suc n)
  show ?case
  proof (cases "operation this")
    case (Inl e)
    with Suc.prems show ?thesis by simp
  next
    case (Inr that)
    with Suc.prems have "run operation setOperationStrategy that (replicate n Operation) = Inr this'"
      by simp
    then have "p this' = p that" by (rule Suc.IH)
    also have "p that = p this" using Inr by (rule keep)
    finally show ?thesis .
  qed
qed

lemma funpow_keeps:
  assumes keep: "\<And>this. p (operation this) = p this"
  shows "p ((operation ^^ n) this) = p this"
  by (induction n) (simp_all add: keep)

lemma RS_Int_run_keeps:
  "RS_IntValue_run this (replicate n Operation) = Inr this' \<Longrightarrow>
     RS_Int_m_OperationStrategy this' = RS_Int_m_OperationStrategy this"
  unfolding RS_IntValue_run_def
  using RS_Int_Operation_strategy by (rule run_replicate_keeps)

lemma RS_Float_run_keeps:
  "RS_FloatValue_run this (replicate n Operation) = Inr this' \<Longrightarrow>
     RS_Float_m_OperationStrategy this' = RS_Float_m_OperationStrategy this"
  unfolding RS_FloatValue_run_def
  using RS_Float_Operation_strategy by (rule run_replicate_keeps)

lemma VS_Int_run_keeps:
  "VS_IntValue_run this (replicate n Operation) = Inr this' \<Longrightarrow>
     VS_Int_m_OperationStrategy this' = VS_Int_m_OperationStrategy this"
  unfolding VS_IntValue_run_def
  using VS_Int_Operation_strategy by (rule run_replicate_keeps)

lemma VS_Float_run_keeps:
  "VS_FloatValue_run this (replicate n Operation) = Inr this' \<Longrightarrow>
     VS_Float_m_OperationStrategy this' = VS_Float_m_OperationStrategy this"
  unfolding VS_FloatValue_run_def
  using VS_Float_Operation_strategy by (rule run_replicate_keeps)

subsection \<open>No absent strategy\<close>

lemma run_succeeds:
  assumes op: "\<And>this. I this \<Longrightarrow> \<exists>this'. operation this = Inr this' \<and> I this'"
    and st: "\<And>s this. s \<noteq> None \<Longrightarrow> I (setOperationStrategy s this)"
  shows "SetOperationStrategy None \<notin> set cs \<Longrightarrow> I this \<Longrightarrow>
     \<exists>this'. run operation setOperationStrategy this cs = Inr this' \<and> I this'"
proof (induction cs arbitrary: this)
  case Nil
  then show ?case by simp
next
  case (Cons c cs)
  show ?case
  proof (cases c)
    case Operation
    from op [OF Cons.prems(2)] obtain that where t: "operation this = Inr that" "I that"
      by blast
    from Cons.prems(1) have "SetOperationStrategy None \<notin> set cs" by simp
    from Cons.IH [OF this t(2)] show ?thesis using Operation t(1) by simp
  next
    case (SetOperationStrategy s)
    with Cons.prems(1) have "s \<noteq> None" by (cases s) auto
    then have i: "I (setOperationStrategy s this)" by (rule st)
    from Cons.prems(1) have "SetOperationStrategy None \<notin> set cs" by simp
    from Cons.IH [OF this i] show ?thesis using SetOperationStrategy by simp
  qed
qed

lemma RS_Int_Operation_succeeds:
  "RS_Int_m_OperationStrategy this \<noteq> None \<Longrightarrow>
     \<exists>this'. RS_IntValue_Operation this = Inr this'
       \<and> RS_Int_m_OperationStrategy this' \<noteq> None"
  using RS_Int_Operation_strategy [of this]
  by (auto simp: RS_IntValue_Operation_def)

lemma RS_Int_run_succeeds:
  assumes "SetOperationStrategy None \<notin> set cs"
  shows "succeeded (RS_IntValue_run (RS_IntValue_ctor v (Some s)) cs)"
proof -
  have "\<exists>this'. run RS_IntValue_Operation RS_IntValue_SetOperationStrategy
      (RS_IntValue_ctor v (Some s)) cs = Inr this'
      \<and> RS_Int_m_OperationStrategy this' \<noteq> None"
  proof (rule run_succeeds [where I = "\<lambda>this. RS_Int_m_OperationStrategy this \<noteq> None"])
    show "\<And>this. RS_Int_m_OperationStrategy this \<noteq> None \<Longrightarrow>
        \<exists>this'. RS_IntValue_Operation this = Inr this'
          \<and> RS_Int_m_OperationStrategy this' \<noteq> None"
      by (rule RS_Int_Operation_succeeds)
    show "\<And>s this. s \<noteq> None \<Longrightarrow>
        RS_Int_m_OperationStrategy (RS_IntValue_SetOperationStrategy s this) \<noteq> None"
      by (simp add: RS_IntValue_SetOperationStrategy_def)
    show "SetOperationStrategy None \<notin> set cs" by (rule assms)
    show "RS_Int_m_OperationStrategy (RS_IntValue_ctor v (Some s)) \<noteq> None"
      by (simp add: RS_IntValue_ctor_def)
  qed
  then show ?thesis by (auto simp: RS_IntValue_run_def)
qed

lemma RS_Float_Operation_succeeds:
  "RS_Float_m_OperationStrategy this \<noteq> None \<Longrightarrow>
     \<exists>this'. RS_FloatValue_Operation this = Inr this'
       \<and> RS_Float_m_OperationStrategy this' \<noteq> None"
  using RS_Float_Operation_strategy [of this]
  by (auto simp: RS_FloatValue_Operation_def)

lemma RS_Float_run_succeeds:
  assumes "SetOperationStrategy None \<notin> set cs"
  shows "succeeded (RS_FloatValue_run (RS_FloatValue_ctor v (Some s)) cs)"
proof -
  have "\<exists>this'. run RS_FloatValue_Operation RS_FloatValue_SetOperationStrategy
      (RS_FloatValue_ctor v (Some s)) cs = Inr this'
      \<and> RS_Float_m_OperationStrategy this' \<noteq> None"
  proof (rule run_succeeds [where I = "\<lambda>this. RS_Float_m_OperationStrategy this \<noteq> None"])
    show "\<And>this. RS_Float_m_OperationStrategy this \<noteq> None \<Longrightarrow>
        \<exists>this'. RS_FloatValue_Operation this = Inr this'
          \<and> RS_Float_m_OperationStrategy this' \<noteq> None"
      by (rule RS_Float_Operation_succeeds)
    show "\<And>s this. s \<noteq> None \<Longrightarrow>
        RS_Float_m_OperationStrategy (RS_FloatValue_SetOperationStrategy s this) \<noteq> None"
      by (simp add: RS_FloatValue_SetOperationStrategy_def)
    show "SetOperationStrategy None \<notin> set cs" by (rule assms)
    show "RS_Float_m_OperationStrategy (RS_FloatValue_ctor v (Some s)) \<noteq> None"
      by (simp add: RS_FloatValue_ctor_def)
  qed
  then show ?thesis by (auto simp: RS_FloatValue_run_def)
qed

lemma VS_Int_Operation_succeeds:
  "VS_Int_m_OperationStrategy this \<noteq> None \<Longrightarrow>
     \<exists>this'. VS_IntValue_Operation this = Inr this'
       \<and> VS_Int_m_OperationStrategy this' \<noteq> None"
  using VS_Int_Operation_strategy [of this]
  by (auto simp: VS_IntValue_Operation_def)

lemma VS_Int_run_succeeds:
  assumes "SetOperationStrategy None \<notin> set cs"
  shows "succeeded (VS_IntValue_run (VS_IntValue_ctor v (Some s)) cs)"
proof -
  have "\<exists>this'. run VS_IntValue_Operation VS_IntValue_SetOperationStrategy
      (VS_IntValue_ctor v (Some s)) cs = Inr this'
      \<and> VS_Int_m_OperationStrategy this' \<noteq> None"
  proof (rule run_succeeds [where I = "\<lambda>this. VS_Int_m_OperationStrategy this \<noteq> None"])
    show "\<And>this. VS_Int_m_OperationStrategy this \<noteq> None \<Longrightarrow>
        \<exists>this'. VS_IntValue_Operation this = Inr this'
          \<and> VS_Int_m_OperationStrategy this' \<noteq> None"
      by (rule VS_Int_Operation_succeeds)
    show "\<And>s this. s \<noteq> None \<Longrightarrow>
        VS_Int_m_OperationStrategy (VS_IntValue_SetOperationStrategy s this) \<noteq> None"
      by (simp add: VS_IntValue_SetOperationStrategy_def)
    show "SetOperationStrategy None \<notin> set cs" by (rule assms)
    show "VS_Int_m_OperationStrategy (VS_IntValue_ctor v (Some s)) \<noteq> None"
      by (simp add: VS_IntValue_ctor_def)
  qed
  then show ?thesis by (auto simp: VS_IntValue_run_def)
qed

lemma VS_Float_Operation_succeeds:
  "VS_Float_m_OperationStrategy this \<noteq> None \<Longrightarrow>
     \<exists>this'. VS_FloatValue_Operation this = Inr this'
       \<and> VS_Float_m_OperationStrategy this' \<noteq> None"
  using VS_Float_Operation_strategy [of this]
  by (auto simp: VS_FloatValue_Operation_def)

lemma VS_Float_run_succeeds:
  assumes "SetOperationStrategy None \<notin> set cs"
  shows "succeeded (VS_FloatValue_run (VS_FloatValue_ctor v (Some s)) cs)"
proof -
  have "\<exists>this'. run VS_FloatValue_Operation VS_FloatValue_SetOperationStrategy
      (VS_FloatValue_ctor v (Some s)) cs = Inr this'
      \<and> VS_Float_m_OperationStrategy this' \<noteq> None"
  proof (rule run_succeeds [where I = "\<lambda>this. VS_Float_m_OperationStrategy this \<noteq> None"])
    show "\<And>this. VS_Float_m_OperationStrategy this \<noteq> None \<Longrightarrow>
        \<exists>this'. VS_FloatValue_Operation this = Inr this'
          \<and> VS_Float_m_OperationStrategy this' \<noteq> None"
      by (rule VS_Float_Operation_succeeds)
    show "\<And>s this. s \<noteq> None \<Longrightarrow>
        VS_Float_m_OperationStrategy (VS_FloatValue_SetOperationStrategy s this) \<noteq> None"
      by (simp add: VS_FloatValue_SetOperationStrategy_def)
    show "SetOperationStrategy None \<notin> set cs" by (rule assms)
    show "VS_Float_m_OperationStrategy (VS_FloatValue_ctor v (Some s)) \<noteq> None"
      by (simp add: VS_FloatValue_ctor_def)
  qed
  then show ?thesis by (auto simp: VS_FloatValue_run_def)
qed

lemma observe_all_succeeded:
  assumes op: "\<And>this. I this \<Longrightarrow> \<exists>this'. operation this = Inr this' \<and> I this'"
    and st: "\<And>s this. s \<noteq> None \<Longrightarrow> I (setOperationStrategy s this)"
  shows "SetOperationStrategy None \<notin> set cs \<Longrightarrow> I this \<Longrightarrow>
     length (observe operation setOperationStrategy getValue this cs) = length cs
     \<and> list_all succeeded (observe operation setOperationStrategy getValue this cs)"
proof (induction cs arbitrary: this)
  case Nil
  then show ?case by simp
next
  case (Cons c cs)
  show ?case
  proof (cases c)
    case Operation
    from op [OF Cons.prems(2)] obtain that where t: "operation this = Inr that" "I that"
      by blast
    from Cons.prems(1) have "SetOperationStrategy None \<notin> set cs" by simp
    from Cons.IH [OF this t(2)] show ?thesis using Operation t(1) by simp
  next
    case (SetOperationStrategy s)
    with Cons.prems(1) have "s \<noteq> None" by (cases s) auto
    then have i: "I (setOperationStrategy s this)" by (rule st)
    from Cons.prems(1) have "SetOperationStrategy None \<notin> set cs" by simp
    from Cons.IH [OF this i] show ?thesis using SetOperationStrategy by simp
  qed
qed

lemma strategy_not_None:
  "RS_Int_strategy b \<noteq> None" "RS_Float_strategy b \<noteq> None"
  "VS_Int_strategy b \<noteq> None" "VS_Float_strategy b \<noteq> None"
  by (cases b; simp add: container_defs)+

lemma no_null_call:
  "SetOperationStrategy None \<notin> set (map (map_Call RS_Int_strategy) cs)"
  "SetOperationStrategy None \<notin> set (map (map_Call RS_Float_strategy) cs)"
  "SetOperationStrategy None \<notin> set (map (map_Call VS_Int_strategy) cs)"
  "SetOperationStrategy None \<notin> set (map (map_Call VS_Float_strategy) cs)"
proof -
  have "SetOperationStrategy None \<notin> set (map (map_Call f) cs)"
    if "\<And>b. f b \<noteq> None" for f :: "Behaviour \<Rightarrow> 'a option"
  proof
    assume "SetOperationStrategy None \<in> set (map (map_Call f) cs)"
    then obtain c where "map_Call f c = SetOperationStrategy None" by auto
    then show False using that by (cases c) auto
  qed
  from this [of RS_Int_strategy] this [of RS_Float_strategy] this [of VS_Int_strategy]
    this [of VS_Float_strategy]
  show "SetOperationStrategy None \<notin> set (map (map_Call RS_Int_strategy) cs)"
    "SetOperationStrategy None \<notin> set (map (map_Call RS_Float_strategy) cs)"
    "SetOperationStrategy None \<notin> set (map (map_Call VS_Int_strategy) cs)"
    "SetOperationStrategy None \<notin> set (map (map_Call VS_Float_strategy) cs)"
    by (simp_all add: strategy_not_None)
qed

lemma RS_Int_observe_succeeded:
  "length (RS_IntValue_observe (RS_IntValue_ctor v (RS_Int_strategy b))
       (map (map_Call RS_Int_strategy) cs)) = length cs
   \<and> list_all succeeded (RS_IntValue_observe (RS_IntValue_ctor v (RS_Int_strategy b))
       (map (map_Call RS_Int_strategy) cs))"
  unfolding RS_IntValue_observe_def
  using observe_all_succeeded [where I = "\<lambda>this. RS_Int_m_OperationStrategy this \<noteq> None"
      and operation = RS_IntValue_Operation
      and setOperationStrategy = RS_IntValue_SetOperationStrategy
      and getValue = RS_IntValue_GetValue
      and this = "RS_IntValue_ctor v (RS_Int_strategy b)"
      and cs = "map (map_Call RS_Int_strategy) cs",
      OF RS_Int_Operation_succeeds _ no_null_call(1)]
  by (simp add: RS_IntValue_SetOperationStrategy_def RS_IntValue_ctor_def strategy_not_None)

lemma RS_Float_observe_succeeded:
  "length (RS_FloatValue_observe (RS_FloatValue_ctor v (RS_Float_strategy b))
       (map (map_Call RS_Float_strategy) cs)) = length cs
   \<and> list_all succeeded (RS_FloatValue_observe (RS_FloatValue_ctor v (RS_Float_strategy b))
       (map (map_Call RS_Float_strategy) cs))"
  unfolding RS_FloatValue_observe_def
  using observe_all_succeeded [where I = "\<lambda>this. RS_Float_m_OperationStrategy this \<noteq> None"
      and operation = RS_FloatValue_Operation
      and setOperationStrategy = RS_FloatValue_SetOperationStrategy
      and getValue = RS_FloatValue_GetValue
      and this = "RS_FloatValue_ctor v (RS_Float_strategy b)"
      and cs = "map (map_Call RS_Float_strategy) cs",
      OF RS_Float_Operation_succeeds _ no_null_call(2)]
  by (simp add: RS_FloatValue_SetOperationStrategy_def RS_FloatValue_ctor_def strategy_not_None)

text \<open>
  The benchmark calls \<^verbatim>\<open>Operation()\<close> once, through the base class, on each value that
  \<^verbatim>\<open>CreateRandomValue\<close> returns: the call returns.
\<close>

lemma RS_CreateRandomValue_Operation:
  "\<exists>v. fst (RS_CreateRandomValue RandomBool r) = Some v \<and> succeeded (RS_Value_Operation v)"
  by (simp add: RS_CreateRandomValue_def RS_IntValue_ctor_def RS_FloatValue_ctor_def
      RS_IntValue_Operation_def RS_FloatValue_Operation_def split: prod.splits)

lemma VS_CreateRandomValue_Operation:
  "\<exists>v. fst (VS_CreateRandomValue RandomBool r) = Some v \<and> succeeded (VS_Value_Operation v)"
  by (simp add: VS_CreateRandomValue_def VS_IntValue_ctor_def VS_FloatValue_ctor_def
      VS_IntValue_Operation_def VS_FloatValue_Operation_def
      VS_GetDecrementIntValueOperationStrategy_def VS_GetDecrementFloatValueOperationStrategy_def
      split: prod.splits)

subsection \<open>The unit-test scenarios\<close>

lemma RS_Int_scenario:
  "RS_IntValue_observe (RS_IntValue_ctor 0 (Some RS_IncrementIntValueOperationStrategy))
     [Operation, Operation, SetOperationStrategy (Some RS_DecrementIntValueOperationStrategy),
      Operation, Operation]
   = [Inr 1, Inr 2, Inr 2, Inr 1, Inr 0]"
  by (simp add: caller_defs container_defs)

lemma RS_Float_scenario:
  "RS_FloatValue_observe (RS_FloatValue_ctor f_zero (Some RS_IncrementFloatValueOperationStrategy))
     [Operation, Operation, SetOperationStrategy (Some RS_DecrementFloatValueOperationStrategy),
      Operation, Operation]
   = [Inr f_one, Inr f_two, Inr f_two, Inr f_one, Inr f_zero]"
  by (simp add: caller_defs container_defs f_add_zero_one f_add_one_one f_sub_two_one
      f_sub_one_one)

lemma VS_Int_scenario:
  "VS_IntValue_observe (VS_IntValue_ctor 0 (Some VS_IncrementIntValueOperationStrategy))
     [Operation, Operation, SetOperationStrategy VS_GetDecrementIntValueOperationStrategy,
      Operation, Operation]
   = [Inr 1, Inr 2, Inr 2, Inr 1, Inr 0]"
  by (simp add: caller_defs container_defs)

lemma VS_Float_scenario:
  "VS_FloatValue_observe (VS_FloatValue_ctor f_zero (Some VS_IncrementFloatValueOperationStrategy))
     [Operation, Operation, SetOperationStrategy VS_GetDecrementFloatValueOperationStrategy,
      Operation, Operation]
   = [Inr f_one, Inr f_two, Inr f_two, Inr f_one, Inr f_zero]"
  by (simp add: caller_defs container_defs f_add_zero_one f_add_one_one f_sub_two_one
      f_sub_one_one)

lemma RS_Int_round_trip:
  "RS_IntValue_run (RS_IntValue_ctor i (Some RS_IncrementIntValueOperationStrategy))
     [Operation, SetOperationStrategy (Some RS_DecrementIntValueOperationStrategy), Operation]
   = Inr (RS_IntValue_ctor i (Some RS_DecrementIntValueOperationStrategy))"
  by (simp add: caller_defs container_defs)

lemma VS_Int_round_trip:
  "VS_IntValue_run (VS_IntValue_ctor i (Some VS_IncrementIntValueOperationStrategy))
     [Operation, SetOperationStrategy VS_GetDecrementIntValueOperationStrategy, Operation]
   = Inr (VS_IntValue_ctor i VS_GetDecrementIntValueOperationStrategy)"
  by (simp add: caller_defs container_defs)

lemma RS_Float_round_trip:
  "RS_FloatValue_run (RS_FloatValue_ctor x (Some RS_IncrementFloatValueOperationStrategy))
     [Operation, SetOperationStrategy (Some RS_DecrementFloatValueOperationStrategy), Operation]
   = Inr (RS_FloatValue_ctor (f_sub (f_add x f_one) f_one)
       (Some RS_DecrementFloatValueOperationStrategy))"
  by (simp add: caller_defs container_defs)

lemma VS_Float_round_trip:
  "VS_FloatValue_run (VS_FloatValue_ctor x (Some VS_IncrementFloatValueOperationStrategy))
     [Operation, SetOperationStrategy VS_GetDecrementFloatValueOperationStrategy, Operation]
   = Inr (VS_FloatValue_ctor (f_sub (f_add x f_one) f_one)
       VS_GetDecrementFloatValueOperationStrategy)"
  by (simp add: caller_defs container_defs)

subsection \<open>Reference semantics and value semantics side by side\<close>

lemma RS_VS_Int_observe:
  assumes "RS_Int_m_OperationStrategy a = RS_Int_strategy b"
    and "VS_Int_m_OperationStrategy a' = VS_Int_strategy b"
    and "RS_Int_m_Value a = VS_Int_m_Value a'"
  shows "RS_IntValue_observe a (map (map_Call RS_Int_strategy) cs)
     = VS_IntValue_observe a' (map (map_Call VS_Int_strategy) cs)"
  using assms
proof (induction cs arbitrary: a a' b)
  case Nil
  then show ?case by (simp add: caller_defs)
next
  case (Cons c cs)
  show ?case
  proof (cases c)
    case Operation
    let ?a = "RS_IntOperationStrategy_Operation (the (RS_Int_strategy b)) a"
    let ?a' = "VS_IntOperationStrategy_invoke (the (VS_Int_strategy b)) a'"
    have s: "RS_Int_m_OperationStrategy ?a = RS_Int_strategy b"
      "VS_Int_m_OperationStrategy ?a' = VS_Int_strategy b"
      "RS_Int_m_Value ?a = VS_Int_m_Value ?a'"
      using Cons.prems by (cases b; simp add: container_defs)+
    have o: "RS_IntValue_Operation a = Inr ?a" "VS_IntValue_Operation a' = Inr ?a'"
      using Cons.prems by (cases b; simp add: container_defs)+
    show ?thesis
      using Cons.IH [OF s] o s(3) Operation
      by (simp add: caller_defs RS_IntValue_GetValue_def VS_IntValue_GetValue_def)
  next
    case (SetOperationStrategy b')
    let ?a = "RS_IntValue_SetOperationStrategy (RS_Int_strategy b') a"
    let ?a' = "VS_IntValue_SetOperationStrategy (VS_Int_strategy b') a'"
    have s: "RS_Int_m_OperationStrategy ?a = RS_Int_strategy b'"
      "VS_Int_m_OperationStrategy ?a' = VS_Int_strategy b'"
      "RS_Int_m_Value ?a = VS_Int_m_Value ?a'"
      using Cons.prems by (simp_all add: container_defs)
    show ?thesis
      using Cons.IH [OF s] s(3) SetOperationStrategy
      by (simp add: caller_defs RS_IntValue_GetValue_def VS_IntValue_GetValue_def)
  qed
qed

lemma RS_VS_Float_observe:
  assumes "RS_Float_m_OperationStrategy a = RS_Float_strategy b"
    and "VS_Float_m_OperationStrategy a' = VS_Float_strategy b"
    and "RS_Float_m_Value a = VS_Float_m_Value a'"
  shows "RS_FloatValue_observe a (map (map_Call RS_Float_strategy) cs)
     = VS_FloatValue_observe a' (map (map_Call VS_Float_strategy) cs)"
  using assms
proof (induction cs arbitrary: a a' b)
  case Nil
  then show ?case by (simp add: caller_defs)
next
  case (Cons c cs)
  show ?case
  proof (cases c)
    case Operation
    let ?a = "RS_FloatOperationStrategy_Operation (the (RS_Float_strategy b)) a"
    let ?a' = "VS_FloatOperationStrategy_invoke (the (VS_Float_strategy b)) a'"
    have s: "RS_Float_m_OperationStrategy ?a = RS_Float_strategy b"
      "VS_Float_m_OperationStrategy ?a' = VS_Float_strategy b"
      "RS_Float_m_Value ?a = VS_Float_m_Value ?a'"
      using Cons.prems by (cases b; simp add: container_defs)+
    have o: "RS_FloatValue_Operation a = Inr ?a" "VS_FloatValue_Operation a' = Inr ?a'"
      using Cons.prems by (cases b; simp add: container_defs)+
    show ?thesis
      using Cons.IH [OF s] o s(3) Operation
      by (simp add: caller_defs RS_FloatValue_GetValue_def VS_FloatValue_GetValue_def)
  next
    case (SetOperationStrategy b')
    let ?a = "RS_FloatValue_SetOperationStrategy (RS_Float_strategy b') a"
    let ?a' = "VS_FloatValue_SetOperationStrategy (VS_Float_strategy b') a'"
    have s: "RS_Float_m_OperationStrategy ?a = RS_Float_strategy b'"
      "VS_Float_m_OperationStrategy ?a' = VS_Float_strategy b'"
      "RS_Float_m_Value ?a = VS_Float_m_Value ?a'"
      using Cons.prems by (simp_all add: container_defs)
    show ?thesis
      using Cons.IH [OF s] s(3) SetOperationStrategy
      by (simp add: caller_defs RS_FloatValue_GetValue_def VS_FloatValue_GetValue_def)
  qed
qed

lemma RS_VS_Int_observe_ctor:
  "VS_IntValue_observe (VS_IntValue_ctor i (VS_Int_strategy b))
       (map (map_Call VS_Int_strategy) cs)
   = RS_IntValue_observe (RS_IntValue_ctor i (RS_Int_strategy b))
       (map (map_Call RS_Int_strategy) cs)"
  by (rule RS_VS_Int_observe [where b = b, symmetric])
    (simp_all add: RS_IntValue_ctor_def VS_IntValue_ctor_def)

lemma RS_VS_Float_observe_ctor:
  "VS_FloatValue_observe (VS_FloatValue_ctor x (VS_Float_strategy b))
       (map (map_Call VS_Float_strategy) cs)
   = RS_FloatValue_observe (RS_FloatValue_ctor x (RS_Float_strategy b))
       (map (map_Call RS_Float_strategy) cs)"
  by (rule RS_VS_Float_observe [where b = b, symmetric])
    (simp_all add: RS_FloatValue_ctor_def VS_FloatValue_ctor_def)

subsection \<open>The float container and the int container side by side\<close>

lemma RS_Float_Int_observe:
  assumes "RS_Float_m_OperationStrategy a = RS_Float_strategy b"
    and "RS_Int_m_OperationStrategy a' = RS_Int_strategy b"
    and "f_is_integer (RS_Float_m_Value a) (sint (RS_Int_m_Value a'))"
    and "float_exact (RS_Int_m_Value a')"
    and "\<forall>j. Inr j \<in> set (RS_IntValue_observe a' (map (map_Call RS_Int_strategy) cs))
           \<longrightarrow> float_exact j"
  shows "list_all2 (rel_sum (=) (\<lambda>x j. f_eq x (float32_image j)))
     (RS_FloatValue_observe a (map (map_Call RS_Float_strategy) cs))
     (RS_IntValue_observe a' (map (map_Call RS_Int_strategy) cs))"
  using assms
proof (induction cs arbitrary: a a' b)
  case Nil
  then show ?case by (simp add: caller_defs)
next
  case (Cons c cs)
  let ?x = "RS_Float_m_Value a"
  let ?i = "RS_Int_m_Value a'"
  show ?case
  proof (cases c)
    case Operation
    define y where "y = (case b of Increment \<Rightarrow> f_add ?x f_one | Decrement \<Rightarrow> f_sub ?x f_one)"
    define j where "j = (case b of Increment \<Rightarrow> ?i + 1 | Decrement \<Rightarrow> ?i - 1)"
    let ?a = "RS_FloatValue_SetValue y a"
    let ?a' = "RS_IntValue_SetValue j a'"
    have o: "RS_FloatValue_Operation a = Inr ?a" "RS_IntValue_Operation a' = Inr ?a'"
      using Cons.prems(1,2) by (cases b; simp add: container_defs y_def j_def)+
    have obs: "RS_IntValue_observe a' (map (map_Call RS_Int_strategy) (c # cs))
        = Inr j # RS_IntValue_observe ?a' (map (map_Call RS_Int_strategy) cs)"
      "RS_FloatValue_observe a (map (map_Call RS_Float_strategy) (c # cs))
        = Inr y # RS_FloatValue_observe ?a (map (map_Call RS_Float_strategy) cs)"
      using o Operation
      by (simp_all add: caller_defs RS_IntValue_GetValue_def RS_FloatValue_GetValue_def
          RS_IntValue_SetValue_def RS_FloatValue_SetValue_def)
    have ej: "float_exact j" using Cons.prems(5) unfolding obs by simp
    have rest: "\<forall>k. Inr k \<in> set (RS_IntValue_observe ?a' (map (map_Call RS_Int_strategy) cs))
        \<longrightarrow> float_exact k"
      using Cons.prems(5) unfolding obs by simp
    have yj: "f_is_integer y (sint j)"
    proof (cases b)
      case Increment
      then show ?thesis
        using f_increment_exact [OF Cons.prems(3,4)] ej by (simp add: y_def j_def)
    next
      case Decrement
      then show ?thesis
        using f_decrement_exact [OF Cons.prems(3,4)] ej by (simp add: y_def j_def)
    qed
    have s: "RS_Float_m_OperationStrategy ?a = RS_Float_strategy b"
      "RS_Int_m_OperationStrategy ?a' = RS_Int_strategy b"
      "f_is_integer (RS_Float_m_Value ?a) (sint (RS_Int_m_Value ?a'))"
      "float_exact (RS_Int_m_Value ?a')"
      using Cons.prems(1,2) yj ej
      by (simp_all add: RS_IntValue_SetValue_def RS_FloatValue_SetValue_def)
    show ?thesis
      unfolding obs using Cons.IH [OF s rest] f_eq_image [OF yj ej] by simp
  next
    case (SetOperationStrategy b')
    let ?a = "RS_FloatValue_SetOperationStrategy (RS_Float_strategy b') a"
    let ?a' = "RS_IntValue_SetOperationStrategy (RS_Int_strategy b') a'"
    have obs: "RS_IntValue_observe a' (map (map_Call RS_Int_strategy) (c # cs))
        = Inr ?i # RS_IntValue_observe ?a' (map (map_Call RS_Int_strategy) cs)"
      "RS_FloatValue_observe a (map (map_Call RS_Float_strategy) (c # cs))
        = Inr ?x # RS_FloatValue_observe ?a (map (map_Call RS_Float_strategy) cs)"
      using SetOperationStrategy
      by (simp_all add: caller_defs RS_IntValue_GetValue_def RS_FloatValue_GetValue_def
          RS_IntValue_SetOperationStrategy_def RS_FloatValue_SetOperationStrategy_def)
    have rest: "\<forall>k. Inr k \<in> set (RS_IntValue_observe ?a' (map (map_Call RS_Int_strategy) cs))
        \<longrightarrow> float_exact k"
      using Cons.prems(5) unfolding obs by simp
    have s: "RS_Float_m_OperationStrategy ?a = RS_Float_strategy b'"
      "RS_Int_m_OperationStrategy ?a' = RS_Int_strategy b'"
      "f_is_integer (RS_Float_m_Value ?a) (sint (RS_Int_m_Value ?a'))"
      "float_exact (RS_Int_m_Value ?a')"
      using Cons.prems(3,4)
      by (simp_all add: RS_IntValue_SetOperationStrategy_def
          RS_FloatValue_SetOperationStrategy_def)
    show ?thesis
      unfolding obs using Cons.IH [OF s rest] f_eq_image [OF Cons.prems(3,4)] by simp
  qed
qed

lemma RS_Float_Int_observe_ctor:
  assumes "float_exact i"
    and "\<forall>j. Inr j \<in> set (RS_IntValue_observe (RS_IntValue_ctor i (RS_Int_strategy b))
            (map (map_Call RS_Int_strategy) cs)) \<longrightarrow> float_exact j"
  shows "list_all2 (rel_sum (=) (\<lambda>x j. f_eq x (float32_image j)))
     (RS_FloatValue_observe (RS_FloatValue_ctor (float32_image i) (RS_Float_strategy b))
        (map (map_Call RS_Float_strategy) cs))
     (RS_IntValue_observe (RS_IntValue_ctor i (RS_Int_strategy b))
        (map (map_Call RS_Int_strategy) cs))"
proof (rule RS_Float_Int_observe [where b = b])
  show "f_is_integer (RS_Float_m_Value (RS_FloatValue_ctor (float32_image i) (RS_Float_strategy b)))
     (sint (RS_Int_m_Value (RS_IntValue_ctor i (RS_Int_strategy b))))"
    using float32_image_exact [OF assms(1)]
    by (simp add: RS_FloatValue_ctor_def RS_IntValue_ctor_def)
  show "\<forall>j. Inr j \<in> set (RS_IntValue_observe (RS_IntValue_ctor i (RS_Int_strategy b))
            (map (map_Call RS_Int_strategy) cs)) \<longrightarrow> float_exact j"
    by (rule assms(2))
qed (simp_all add: RS_FloatValue_ctor_def RS_IntValue_ctor_def assms(1))

section \<open>The claims\<close>

text \<open>
  C1. The unit tests of the reference-semantics and of the value-semantics design, for the
  int and for the float container: constructed with 0 (0.0) and the increment strategy,
  the container holds 1 and then 2 (2.0) after two calls of \<^verbatim>\<open>Operation()\<close>; the swap to
  the decrement strategy leaves 2, and two further calls give 1 and then 0 (0.0) again.
  The float values are the bit patterns of the literals the tests compare with.
\<close>

theorem C1_end_to_end_scenario:
  "RS_IntValue_observe (RS_IntValue_ctor 0 (Some RS_IncrementIntValueOperationStrategy))
     [Operation, Operation, SetOperationStrategy (Some RS_DecrementIntValueOperationStrategy),
      Operation, Operation]
   = [Inr 1, Inr 2, Inr 2, Inr 1, Inr 0]
   \<and> RS_FloatValue_observe
       (RS_FloatValue_ctor f_zero (Some RS_IncrementFloatValueOperationStrategy))
       [Operation, Operation, SetOperationStrategy (Some RS_DecrementFloatValueOperationStrategy),
        Operation, Operation]
     = [Inr f_one, Inr f_two, Inr f_two, Inr f_one, Inr f_zero]
   \<and> VS_IntValue_observe (VS_IntValue_ctor 0 (Some VS_IncrementIntValueOperationStrategy))
       [Operation, Operation, SetOperationStrategy VS_GetDecrementIntValueOperationStrategy,
        Operation, Operation]
     = [Inr 1, Inr 2, Inr 2, Inr 1, Inr 0]
   \<and> VS_FloatValue_observe
       (VS_FloatValue_ctor f_zero (Some VS_IncrementFloatValueOperationStrategy))
       [Operation, Operation, SetOperationStrategy VS_GetDecrementFloatValueOperationStrategy,
        Operation, Operation]
     = [Inr f_one, Inr f_two, Inr f_two, Inr f_one, Inr f_zero]"
  using RS_Int_scenario RS_Float_scenario VS_Int_scenario VS_Float_scenario
  by (intro conjI)

text \<open>
  C2. In all three designs one call of \<^verbatim>\<open>Operation()\<close> applies the assigned behaviour to
  the scalar, whatever the current value: the int strategies store \<open>value + 1\<close> and
  \<open>value - 1\<close> (32-bit, wrapping), the float strategies \<open>value + 1.0f\<close> and
  \<open>value - 1.0f\<close> (binary32), and the call leaves the strategy as it was.
\<close>

theorem C2_operation_applies_behaviour:
  "RS_IntValue_Operation (RS_IntValue_ctor i (Some RS_IncrementIntValueOperationStrategy))
     = Inr (RS_IntValue_ctor (i + 1) (Some RS_IncrementIntValueOperationStrategy))
   \<and> RS_IntValue_Operation (RS_IntValue_ctor i (Some RS_DecrementIntValueOperationStrategy))
     = Inr (RS_IntValue_ctor (i - 1) (Some RS_DecrementIntValueOperationStrategy))
   \<and> RS_FloatValue_Operation (RS_FloatValue_ctor x (Some RS_IncrementFloatValueOperationStrategy))
     = Inr (RS_FloatValue_ctor (f_add x f_one) (Some RS_IncrementFloatValueOperationStrategy))
   \<and> RS_FloatValue_Operation (RS_FloatValue_ctor x (Some RS_DecrementFloatValueOperationStrategy))
     = Inr (RS_FloatValue_ctor (f_sub x f_one) (Some RS_DecrementFloatValueOperationStrategy))
   \<and> VS_IntValue_Operation (VS_IntValue_ctor i (Some VS_IncrementIntValueOperationStrategy))
     = Inr (VS_IntValue_ctor (i + 1) (Some VS_IncrementIntValueOperationStrategy))
   \<and> VS_IntValue_Operation (VS_IntValue_ctor i VS_GetDecrementIntValueOperationStrategy)
     = Inr (VS_IntValue_ctor (i - 1) VS_GetDecrementIntValueOperationStrategy)
   \<and> VS_FloatValue_Operation (VS_FloatValue_ctor x (Some VS_IncrementFloatValueOperationStrategy))
     = Inr (VS_FloatValue_ctor (f_add x f_one) (Some VS_IncrementFloatValueOperationStrategy))
   \<and> VS_FloatValue_Operation (VS_FloatValue_ctor x VS_GetDecrementFloatValueOperationStrategy)
     = Inr (VS_FloatValue_ctor (f_sub x f_one) VS_GetDecrementFloatValueOperationStrategy)
   \<and> T_IntValue_Operation (T_IntValue_ctor T_IncrementIntValueOperationStrategy i)
     = T_IntValue_ctor T_IncrementIntValueOperationStrategy (i + 1)
   \<and> T_IntValue_Operation (T_IntValue_ctor T_DecrementIntValueOperationStrategy i)
     = T_IntValue_ctor T_DecrementIntValueOperationStrategy (i - 1)
   \<and> T_FloatValue_Operation (T_FloatValue_ctor T_IncrementFloatValueOperationStrategy x)
     = T_FloatValue_ctor T_IncrementFloatValueOperationStrategy (f_add x f_one)
   \<and> T_FloatValue_Operation (T_FloatValue_ctor T_DecrementFloatValueOperationStrategy x)
     = T_FloatValue_ctor T_DecrementFloatValueOperationStrategy (f_sub x f_one)"
  by (simp add: container_defs)

text \<open>
  C3, as it is stated, fails for the float container: at 16777216.0f (\<open>2 ^ 24\<close>) the
  increment rounds back to 16777216.0f, and the decrement then gives 16777215.0f.
\<close>

theorem C3_round_trip_counterexample:
  "RS_FloatValue_run
     (RS_FloatValue_ctor 0x4B800000 (Some RS_IncrementFloatValueOperationStrategy))
     [Operation, SetOperationStrategy (Some RS_DecrementFloatValueOperationStrategy), Operation]
   = Inr (RS_FloatValue_ctor 0x4B7FFFFF (Some RS_DecrementFloatValueOperationStrategy))
   \<and> \<not> f_eq 0x4B7FFFFF 0x4B800000
   \<and> f_value 0x4B800000 = 16777216 * 2 ^ 149
   \<and> f_value 0x4B7FFFFF = 16777215 * 2 ^ 149"
  by (simp only: RS_Float_round_trip f_add_2_24_one f_sub_2_24_one not_f_eq_2_24
      f_value_2_24 f_value_2_24_m1 simp_thms)

text \<open>
  C3, amended. Increment and then decrement is a round trip for every \<^verbatim>\<open>int32_t\<close>
  (with wrap-around), and for every float that is an integer from \<open>- 2 ^ 24\<close> to
  \<open>2 ^ 24 - 1\<close>: the container holds a value equal (\<^verbatim>\<open>==\<close>) to the initial one.
\<close>

theorem C3_round_trip:
  "RS_IntValue_run (RS_IntValue_ctor i (Some RS_IncrementIntValueOperationStrategy))
     [Operation, SetOperationStrategy (Some RS_DecrementIntValueOperationStrategy), Operation]
   = Inr (RS_IntValue_ctor i (Some RS_DecrementIntValueOperationStrategy))
   \<and> VS_IntValue_run (VS_IntValue_ctor i (Some VS_IncrementIntValueOperationStrategy))
     [Operation, SetOperationStrategy VS_GetDecrementIntValueOperationStrategy, Operation]
   = Inr (VS_IntValue_ctor i VS_GetDecrementIntValueOperationStrategy)
   \<and> (f_integer_between (- (2 ^ 24)) (2 ^ 24 - 1) x \<longrightarrow>
       (\<exists>x'. RS_FloatValue_run
            (RS_FloatValue_ctor x (Some RS_IncrementFloatValueOperationStrategy))
            [Operation, SetOperationStrategy (Some RS_DecrementFloatValueOperationStrategy),
             Operation]
          = Inr (RS_FloatValue_ctor x' (Some RS_DecrementFloatValueOperationStrategy))
          \<and> f_eq x' x)
       \<and> (\<exists>x'. VS_FloatValue_run
            (VS_FloatValue_ctor x (Some VS_IncrementFloatValueOperationStrategy))
            [Operation, SetOperationStrategy VS_GetDecrementFloatValueOperationStrategy,
             Operation]
          = Inr (VS_FloatValue_ctor x' VS_GetDecrementFloatValueOperationStrategy)
          \<and> f_eq x' x))"
  using f_round_trip [of x]
  by (simp only: RS_Int_round_trip VS_Int_round_trip RS_Float_round_trip VS_Float_round_trip)
    blast

theorem C3_round_trip_witness:
  "f_integer_between (- (2 ^ 24)) (2 ^ 24 - 1) f_one
   \<and> (\<exists>x'. RS_FloatValue_run
          (RS_FloatValue_ctor f_one (Some RS_IncrementFloatValueOperationStrategy))
          [Operation, SetOperationStrategy (Some RS_DecrementFloatValueOperationStrategy),
           Operation]
        = Inr (RS_FloatValue_ctor x' (Some RS_DecrementFloatValueOperationStrategy))
        \<and> f_eq x' f_one)
   \<and> RS_FloatValue_run
          (RS_FloatValue_ctor f_one (Some RS_IncrementFloatValueOperationStrategy))
          [Operation, SetOperationStrategy (Some RS_DecrementFloatValueOperationStrategy),
           Operation]
        = Inr (RS_FloatValue_ctor f_one (Some RS_DecrementFloatValueOperationStrategy))"
proof -
  have "RS_FloatValue_run
          (RS_FloatValue_ctor f_one (Some RS_IncrementFloatValueOperationStrategy))
          [Operation, SetOperationStrategy (Some RS_DecrementFloatValueOperationStrategy),
           Operation]
        = Inr (RS_FloatValue_ctor f_one (Some RS_DecrementFloatValueOperationStrategy))"
    by (simp only: RS_Float_round_trip f_add_one_one f_sub_two_one)
  then show ?thesis
    using C3_round_trip [of 0 f_one] f_integer_between_one by blast
qed

text \<open>
  C4. A reference-semantics container and a value-semantics container, constructed with
  the same scalar and the same behaviour and given the same calls (\<^verbatim>\<open>Operation()\<close>, or
  \<^verbatim>\<open>SetOperationStrategy\<close> with the increment or the decrement behaviour), return the
  same from \<^verbatim>\<open>GetValue()\<close> after every call: the same 32-bit integer, the same float bit
  for bit. None of the calls fails, so there is an observation after each of them.
\<close>

theorem C4_designs_observationally_equivalent:
  "RS_IntValue_observe (RS_IntValue_ctor i (RS_Int_strategy b))
       (map (map_Call RS_Int_strategy) cs)
     = VS_IntValue_observe (VS_IntValue_ctor i (VS_Int_strategy b))
       (map (map_Call VS_Int_strategy) cs)
   \<and> RS_FloatValue_observe (RS_FloatValue_ctor x (RS_Float_strategy b))
       (map (map_Call RS_Float_strategy) cs)
     = VS_FloatValue_observe (VS_FloatValue_ctor x (VS_Float_strategy b))
       (map (map_Call VS_Float_strategy) cs)
   \<and> length (RS_IntValue_observe (RS_IntValue_ctor i (RS_Int_strategy b))
       (map (map_Call RS_Int_strategy) cs)) = length cs
   \<and> list_all succeeded (RS_IntValue_observe (RS_IntValue_ctor i (RS_Int_strategy b))
       (map (map_Call RS_Int_strategy) cs))
   \<and> length (RS_FloatValue_observe (RS_FloatValue_ctor x (RS_Float_strategy b))
       (map (map_Call RS_Float_strategy) cs)) = length cs
   \<and> list_all succeeded (RS_FloatValue_observe (RS_FloatValue_ctor x (RS_Float_strategy b))
       (map (map_Call RS_Float_strategy) cs))"
proof (intro conjI)
  show "RS_IntValue_observe (RS_IntValue_ctor i (RS_Int_strategy b))
       (map (map_Call RS_Int_strategy) cs)
     = VS_IntValue_observe (VS_IntValue_ctor i (VS_Int_strategy b))
       (map (map_Call VS_Int_strategy) cs)"
    by (rule RS_VS_Int_observe [where b = b])
      (simp_all add: RS_IntValue_ctor_def VS_IntValue_ctor_def)
  show "RS_FloatValue_observe (RS_FloatValue_ctor x (RS_Float_strategy b))
       (map (map_Call RS_Float_strategy) cs)
     = VS_FloatValue_observe (VS_FloatValue_ctor x (VS_Float_strategy b))
       (map (map_Call VS_Float_strategy) cs)"
    by (rule RS_VS_Float_observe [where b = b])
      (simp_all add: RS_FloatValue_ctor_def VS_FloatValue_ctor_def)
qed (simp_all add: RS_Int_observe_succeeded RS_Float_observe_succeeded)

text \<open>
  C5. \<^verbatim>\<open>CreateRandomValue\<close>, in every design, draws exactly two booleans: the first
  chooses the int container (true) or the float container, the second the increment
  strategy (true) or the decrement strategy. The container is constructed with 0 (0.0)
  and that strategy, and the pointer returned is never null. The four outcomes are
  pairwise different.
\<close>

theorem C5_create_random_value:
  "RS_CreateRandomValue RandomBool r =
     (Some (if fst (RandomBool r)
            then RS_Value_Int (RS_IntValue_ctor 0
                   (if fst (RandomBool (snd (RandomBool r)))
                    then Some RS_IncrementIntValueOperationStrategy
                    else Some RS_DecrementIntValueOperationStrategy))
            else RS_Value_Float (RS_FloatValue_ctor f_zero
                   (if fst (RandomBool (snd (RandomBool r)))
                    then Some RS_IncrementFloatValueOperationStrategy
                    else Some RS_DecrementFloatValueOperationStrategy))),
      snd (RandomBool (snd (RandomBool r))))
   \<and> VS_CreateRandomValue RandomBool r =
     (Some (if fst (RandomBool r)
            then VS_Value_Int (VS_IntValue_ctor 0
                   (if fst (RandomBool (snd (RandomBool r)))
                    then Some VS_IncrementIntValueOperationStrategy
                    else Some VS_DecrementIntValueLambda))
            else VS_Value_Float (VS_FloatValue_ctor f_zero
                   (if fst (RandomBool (snd (RandomBool r)))
                    then Some VS_IncrementFloatValueOperationStrategy
                    else Some VS_DecrementFloatValueLambda))),
      snd (RandomBool (snd (RandomBool r))))
   \<and> T_CreateRandomValue RandomBool r =
     (Some (if fst (RandomBool r)
            then T_Value_Int (T_IntValue_ctor
                   (if fst (RandomBool (snd (RandomBool r)))
                    then T_IncrementIntValueOperationStrategy
                    else T_DecrementIntValueOperationStrategy) 0)
            else T_Value_Float (T_FloatValue_ctor
                   (if fst (RandomBool (snd (RandomBool r)))
                    then T_IncrementFloatValueOperationStrategy
                    else T_DecrementFloatValueOperationStrategy) f_zero)),
      snd (RandomBool (snd (RandomBool r))))
   \<and> distinct
     [RS_Value_Int (RS_IntValue_ctor 0 (Some RS_IncrementIntValueOperationStrategy)),
      RS_Value_Int (RS_IntValue_ctor 0 (Some RS_DecrementIntValueOperationStrategy)),
      RS_Value_Float (RS_FloatValue_ctor f_zero (Some RS_IncrementFloatValueOperationStrategy)),
      RS_Value_Float (RS_FloatValue_ctor f_zero (Some RS_DecrementFloatValueOperationStrategy))]
   \<and> distinct
     [VS_Value_Int (VS_IntValue_ctor 0 (Some VS_IncrementIntValueOperationStrategy)),
      VS_Value_Int (VS_IntValue_ctor 0 (Some VS_DecrementIntValueLambda)),
      VS_Value_Float (VS_FloatValue_ctor f_zero (Some VS_IncrementFloatValueOperationStrategy)),
      VS_Value_Float (VS_FloatValue_ctor f_zero (Some VS_DecrementFloatValueLambda))]
   \<and> distinct
     [T_Value_Int (T_IntValue_ctor T_IncrementIntValueOperationStrategy 0),
      T_Value_Int (T_IntValue_ctor T_DecrementIntValueOperationStrategy 0),
      T_Value_Float (T_FloatValue_ctor T_IncrementFloatValueOperationStrategy f_zero),
      T_Value_Float (T_FloatValue_ctor T_DecrementFloatValueOperationStrategy f_zero)]"
  by (simp add: RS_CreateRandomValue_def RS_IntValue_ctor_def RS_FloatValue_ctor_def
      VS_IntValue_ctor_def VS_FloatValue_ctor_def T_IntValue_ctor_def T_FloatValue_ctor_def
      VS_CreateRandomValue_def T_CreateRandomValue_def
      VS_GetDecrementIntValueOperationStrategy_def VS_GetDecrementFloatValueOperationStrategy_def
      split: prod.splits)

text \<open>
  C6. The unit tests of the template design: from 0, a container of the increment type
  holds 1 and then 2 after two calls of \<^verbatim>\<open>Operation()\<close>, a container of the decrement type
  -1 and then -2, for the int and for the float container.
\<close>

theorem C6_template_scenario:
  "map T_IntValue_GetValue
     [T_IntValue_Operation (T_IntValue_ctor T_IncrementIntValueOperationStrategy 0),
      T_IntValue_Operation
        (T_IntValue_Operation (T_IntValue_ctor T_IncrementIntValueOperationStrategy 0))]
   = [1, 2]
   \<and> map T_IntValue_GetValue
     [T_IntValue_Operation (T_IntValue_ctor T_DecrementIntValueOperationStrategy 0),
      T_IntValue_Operation
        (T_IntValue_Operation (T_IntValue_ctor T_DecrementIntValueOperationStrategy 0))]
   = [- 1, - 2]
   \<and> map T_FloatValue_GetValue
     [T_FloatValue_Operation (T_FloatValue_ctor T_IncrementFloatValueOperationStrategy f_zero),
      T_FloatValue_Operation
        (T_FloatValue_Operation (T_FloatValue_ctor T_IncrementFloatValueOperationStrategy f_zero))]
   = [f_one, f_two]
   \<and> map T_FloatValue_GetValue
     [T_FloatValue_Operation (T_FloatValue_ctor T_DecrementFloatValueOperationStrategy f_zero),
      T_FloatValue_Operation
        (T_FloatValue_Operation (T_FloatValue_ctor T_DecrementFloatValueOperationStrategy f_zero))]
   = [f_minus_one, f_minus_two]"
  by (simp add: container_defs f_add_zero_one f_add_one_one f_sub_zero_one f_sub_minus_one_one)

text \<open>
  C7. \<^verbatim>\<open>SetOperationStrategy\<close> leaves the scalar alone: in every state of a
  reference-semantics or value-semantics container, and for every new strategy,
  \<^verbatim>\<open>GetValue()\<close> returns after the call what it returned before.
\<close>

theorem C7_set_strategy_keeps_value:
  "RS_IntValue_GetValue (RS_IntValue_SetOperationStrategy s1 a) = RS_IntValue_GetValue a
   \<and> RS_FloatValue_GetValue (RS_FloatValue_SetOperationStrategy s2 b) = RS_FloatValue_GetValue b
   \<and> VS_IntValue_GetValue (VS_IntValue_SetOperationStrategy s3 c) = VS_IntValue_GetValue c
   \<and> VS_FloatValue_GetValue (VS_FloatValue_SetOperationStrategy s4 d) = VS_FloatValue_GetValue d"
  by (simp add: container_defs)

text \<open>
  C8. A container constructed with a strategy, and only ever given a strategy by
  \<^verbatim>\<open>SetOperationStrategy\<close> (never the null pointer, never the empty function), cannot
  fail: whatever the calls, every \<^verbatim>\<open>Operation()\<close> among them returns, so the branch of the
  absent strategy is not reached. (In the template design \<^verbatim>\<open>Operation()\<close> has no such
  branch: \<open>T_IntValue_Operation\<close> and \<open>T_FloatValue_Operation\<close> return a container.)
\<close>

theorem C8_operation_cannot_fail:
  "SetOperationStrategy None \<notin> set cs1 \<and> SetOperationStrategy None \<notin> set cs2
   \<and> SetOperationStrategy None \<notin> set cs3 \<and> SetOperationStrategy None \<notin> set cs4
   \<Longrightarrow>
   succeeded (RS_IntValue_run (RS_IntValue_ctor i (Some s1)) (cs1 @ [Operation]))
   \<and> succeeded (RS_FloatValue_run (RS_FloatValue_ctor x (Some s2)) (cs2 @ [Operation]))
   \<and> succeeded (VS_IntValue_run (VS_IntValue_ctor i (Some s3)) (cs3 @ [Operation]))
   \<and> succeeded (VS_FloatValue_run (VS_FloatValue_ctor x (Some s4)) (cs4 @ [Operation]))"
  by (intro conjI RS_Int_run_succeeds RS_Float_run_succeeds VS_Int_run_succeeds
      VS_Float_run_succeeds) simp_all

theorem C8_operation_cannot_fail_witness:
  "SetOperationStrategy None \<notin>
     set [Operation, SetOperationStrategy (Some RS_DecrementIntValueOperationStrategy)]
   \<and> succeeded (RS_IntValue_run (RS_IntValue_ctor 7 (Some RS_IncrementIntValueOperationStrategy))
       ([Operation, SetOperationStrategy (Some RS_DecrementIntValueOperationStrategy)]
        @ [Operation]))
   \<and> RS_IntValue_run (RS_IntValue_ctor 7 (Some RS_IncrementIntValueOperationStrategy))
       [Operation, SetOperationStrategy (Some RS_DecrementIntValueOperationStrategy), Operation]
     = Inr (RS_IntValue_ctor 7 (Some RS_DecrementIntValueOperationStrategy))"
  using C8_operation_cannot_fail [of
      "[Operation, SetOperationStrategy (Some RS_DecrementIntValueOperationStrategy)]"
      "[]" "[]" "[]" 7 RS_IncrementIntValueOperationStrategy]
  by (simp add: caller_defs container_defs)

text \<open>
  C9, as it is stated, fails: from 16777216 the int container counts to 16777217 and
  16777218, the float container stays at 16777216.0f, which is not the float image
  16777218.0f of 16777218.
\<close>

theorem C9_float_image_counterexample:
  "RS_IntValue_observe (RS_IntValue_ctor 16777216 (RS_Int_strategy Increment))
     (map (map_Call RS_Int_strategy) [Operation, Operation])
   = [Inr 16777217, Inr 16777218]
   \<and> RS_FloatValue_observe
       (RS_FloatValue_ctor (float32_image 16777216) (RS_Float_strategy Increment))
       (map (map_Call RS_Float_strategy) [Operation, Operation])
     = [Inr 0x4B800000, Inr 0x4B800000]
   \<and> float32_image 16777218 = 0x4B800001
   \<and> \<not> f_eq 0x4B800000 (float32_image 16777218)
   \<and> f_value 0x4B800000 = 16777216 * 2 ^ 149
   \<and> f_value 0x4B800001 = 16777218 * 2 ^ 149"
proof -
  have "RS_IntValue_observe (RS_IntValue_ctor 16777216 (RS_Int_strategy Increment))
     (map (map_Call RS_Int_strategy) [Operation, Operation])
   = [Inr 16777217, Inr 16777218]"
    by (simp add: caller_defs container_defs)
  moreover have "RS_FloatValue_observe
       (RS_FloatValue_ctor (float32_image 16777216) (RS_Float_strategy Increment))
       (map (map_Call RS_Float_strategy) [Operation, Operation])
     = [Inr 0x4B800000, Inr 0x4B800000]"
    by (simp add: caller_defs container_defs float32_image_2_24 f_add_2_24_one)
  moreover have "\<not> f_eq 0x4B800000 (float32_image 16777218)"
    by (simp only: float32_image_2_24_p2 not_f_eq_image simp_thms)
  ultimately show ?thesis
    using float32_image_2_24_p2 f_value_2_24 f_value_2_24_p2 by (intro conjI)
qed

text \<open>
  C9, amended. As long as the int container stays between \<open>- 2 ^ 24\<close> and \<open>2 ^ 24\<close>
  (initially and after every call), the float container constructed with the float image
  of the initial integer and given the same calls holds, after every call, a value equal
  (\<^verbatim>\<open>==\<close>) to the float image of what the int container holds. This is so under
  reference semantics and under value semantics.
\<close>

theorem C9_float_follows_int:
  "float_exact i \<and>
   (\<forall>j. Inr j \<in> set (RS_IntValue_observe (RS_IntValue_ctor i (RS_Int_strategy b))
            (map (map_Call RS_Int_strategy) cs)) \<longrightarrow> float_exact j)
   \<Longrightarrow>
   list_all2 (rel_sum (=) (\<lambda>x j. f_eq x (float32_image j)))
     (RS_FloatValue_observe (RS_FloatValue_ctor (float32_image i) (RS_Float_strategy b))
        (map (map_Call RS_Float_strategy) cs))
     (RS_IntValue_observe (RS_IntValue_ctor i (RS_Int_strategy b))
        (map (map_Call RS_Int_strategy) cs))
   \<and> list_all2 (rel_sum (=) (\<lambda>x j. f_eq x (float32_image j)))
     (VS_FloatValue_observe (VS_FloatValue_ctor (float32_image i) (VS_Float_strategy b))
        (map (map_Call VS_Float_strategy) cs))
     (VS_IntValue_observe (VS_IntValue_ctor i (VS_Int_strategy b))
        (map (map_Call VS_Int_strategy) cs))"
  unfolding RS_VS_Int_observe_ctor RS_VS_Float_observe_ctor
  using RS_Float_Int_observe_ctor [of i b cs] by blast

theorem C9_float_follows_int_witness:
  "float_exact 3
   \<and> RS_IntValue_observe (RS_IntValue_ctor 3 (RS_Int_strategy Decrement))
       (map (map_Call RS_Int_strategy) [Operation, SetOperationStrategy Increment, Operation])
     = [Inr 2, Inr 2, Inr 3]
   \<and> float_exact 2
   \<and> list_all2 (rel_sum (=) (\<lambda>x j. f_eq x (float32_image j)))
     (RS_FloatValue_observe (RS_FloatValue_ctor (float32_image 3) (RS_Float_strategy Decrement))
        (map (map_Call RS_Float_strategy)
          [Operation, SetOperationStrategy Increment, Operation]))
     (RS_IntValue_observe (RS_IntValue_ctor 3 (RS_Int_strategy Decrement))
        (map (map_Call RS_Int_strategy)
          [Operation, SetOperationStrategy Increment, Operation]))"
proof -
  have e: "float_exact 3" "float_exact 2"
    by (simp_all add: float_exact_def)
  have o: "RS_IntValue_observe (RS_IntValue_ctor 3 (RS_Int_strategy Decrement))
       (map (map_Call RS_Int_strategy) [Operation, SetOperationStrategy Increment, Operation])
     = [Inr 2, Inr 2, Inr 3]"
    by (simp add: caller_defs container_defs)
  have h: "\<forall>j. Inr j \<in> set (RS_IntValue_observe (RS_IntValue_ctor 3 (RS_Int_strategy Decrement))
       (map (map_Call RS_Int_strategy) [Operation, SetOperationStrategy Increment, Operation]))
       \<longrightarrow> float_exact j"
    unfolding o using e by auto
  from C9_float_follows_int [of 3 Decrement
      "[Operation, SetOperationStrategy Increment, Operation]"] e(1) h
  have "list_all2 (rel_sum (=) (\<lambda>x j. f_eq x (float32_image j)))
     (RS_FloatValue_observe (RS_FloatValue_ctor (float32_image 3) (RS_Float_strategy Decrement))
        (map (map_Call RS_Float_strategy)
          [Operation, SetOperationStrategy Increment, Operation]))
     (RS_IntValue_observe (RS_IntValue_ctor 3 (RS_Int_strategy Decrement))
        (map (map_Call RS_Int_strategy)
          [Operation, SetOperationStrategy Increment, Operation]))"
    by blast
  with e o show ?thesis by (intro conjI)
qed

text \<open>
  C10. \<^verbatim>\<open>Operation()\<close> writes the scalar only. In the designs with a replaceable strategy,
  a call that returns leaves \<^verbatim>\<open>m_OperationStrategy\<close> as it was, and so does any number of
  calls in a row; in the template design the strategy is the template argument, which
  \<^verbatim>\<open>Operation()\<close> cannot change either.
\<close>

theorem C10_operation_keeps_strategy:
  "(\<forall>this this'. RS_IntValue_Operation this = Inr this' \<longrightarrow>
      RS_Int_m_OperationStrategy this' = RS_Int_m_OperationStrategy this)
   \<and> (\<forall>this this'. RS_FloatValue_Operation this = Inr this' \<longrightarrow>
      RS_Float_m_OperationStrategy this' = RS_Float_m_OperationStrategy this)
   \<and> (\<forall>this this'. VS_IntValue_Operation this = Inr this' \<longrightarrow>
      VS_Int_m_OperationStrategy this' = VS_Int_m_OperationStrategy this)
   \<and> (\<forall>this this'. VS_FloatValue_Operation this = Inr this' \<longrightarrow>
      VS_Float_m_OperationStrategy this' = VS_Float_m_OperationStrategy this)
   \<and> (\<forall>this. T_Int_TOperationStrategy (T_IntValue_Operation this) =
      T_Int_TOperationStrategy this)
   \<and> (\<forall>this. T_Float_TOperationStrategy (T_FloatValue_Operation this) =
      T_Float_TOperationStrategy this)
   \<and> (\<forall>n this this'. RS_IntValue_run this (replicate n Operation) = Inr this' \<longrightarrow>
      RS_Int_m_OperationStrategy this' = RS_Int_m_OperationStrategy this)
   \<and> (\<forall>n this this'. RS_FloatValue_run this (replicate n Operation) = Inr this' \<longrightarrow>
      RS_Float_m_OperationStrategy this' = RS_Float_m_OperationStrategy this)
   \<and> (\<forall>n this this'. VS_IntValue_run this (replicate n Operation) = Inr this' \<longrightarrow>
      VS_Int_m_OperationStrategy this' = VS_Int_m_OperationStrategy this)
   \<and> (\<forall>n this this'. VS_FloatValue_run this (replicate n Operation) = Inr this' \<longrightarrow>
      VS_Float_m_OperationStrategy this' = VS_Float_m_OperationStrategy this)
   \<and> (\<forall>n this. T_Int_TOperationStrategy ((T_IntValue_Operation ^^ n) this) =
      T_Int_TOperationStrategy this)
   \<and> (\<forall>n this. T_Float_TOperationStrategy ((T_FloatValue_Operation ^^ n) this) =
      T_Float_TOperationStrategy this)"
  by (intro conjI allI impI)
    (simp_all add: RS_Int_Operation_strategy RS_Float_Operation_strategy
      VS_Int_Operation_strategy VS_Float_Operation_strategy T_Int_Operation_strategy
      T_Float_Operation_strategy funpow_keeps RS_Int_run_keeps RS_Float_run_keeps
      VS_Int_run_keeps VS_Float_run_keeps)

theorem C10_operation_keeps_strategy_witness:
  "RS_IntValue_Operation (RS_IntValue_ctor 5 (Some RS_IncrementIntValueOperationStrategy))
     = Inr (RS_IntValue_ctor 6 (Some RS_IncrementIntValueOperationStrategy))
   \<and> RS_Int_m_OperationStrategy
       (RS_IntValue_ctor 6 (Some RS_IncrementIntValueOperationStrategy))
     = RS_Int_m_OperationStrategy
       (RS_IntValue_ctor 5 (Some RS_IncrementIntValueOperationStrategy))
   \<and> VS_IntValue_run (VS_IntValue_ctor 5 VS_GetDecrementIntValueOperationStrategy)
       (replicate 3 Operation)
     = Inr (VS_IntValue_ctor 2 VS_GetDecrementIntValueOperationStrategy)
   \<and> VS_Int_m_OperationStrategy (VS_IntValue_ctor 2 VS_GetDecrementIntValueOperationStrategy)
     = VS_Int_m_OperationStrategy (VS_IntValue_ctor 5 VS_GetDecrementIntValueOperationStrategy)"
proof -
  have a: "RS_IntValue_Operation (RS_IntValue_ctor 5 (Some RS_IncrementIntValueOperationStrategy))
     = Inr (RS_IntValue_ctor 6 (Some RS_IncrementIntValueOperationStrategy))"
    by (simp add: container_defs)
  have b: "VS_IntValue_run (VS_IntValue_ctor 5 VS_GetDecrementIntValueOperationStrategy)
       (replicate 3 Operation)
     = Inr (VS_IntValue_ctor 2 VS_GetDecrementIntValueOperationStrategy)"
    by (simp add: caller_defs container_defs numeral_3_eq_3)
  from C10_operation_keeps_strategy
  have c: "\<forall>this this'. RS_IntValue_Operation this = Inr this' \<longrightarrow>
      RS_Int_m_OperationStrategy this' = RS_Int_m_OperationStrategy this"
    by (rule conjunct1)
  from C10_operation_keeps_strategy
  have d: "\<forall>n this this'. VS_IntValue_run this (replicate n Operation) = Inr this' \<longrightarrow>
      VS_Int_m_OperationStrategy this' = VS_Int_m_OperationStrategy this"
    by (elim conjE) assumption
  from c a have "RS_Int_m_OperationStrategy
       (RS_IntValue_ctor 6 (Some RS_IncrementIntValueOperationStrategy))
     = RS_Int_m_OperationStrategy
       (RS_IntValue_ctor 5 (Some RS_IncrementIntValueOperationStrategy))"
    by blast
  moreover from d b
  have "VS_Int_m_OperationStrategy (VS_IntValue_ctor 2 VS_GetDecrementIntValueOperationStrategy)
     = VS_Int_m_OperationStrategy (VS_IntValue_ctor 5 VS_GetDecrementIntValueOperationStrategy)"
    by blast
  ultimately show ?thesis using a b by (intro conjI)
qed

end
